theory Spec2Isabelle
  imports Complex_Main
begin

section \<open>wholeBodyTorqueObserver: data\<close>

text \<open>
  The module (\<^verbatim>\<open>src/modules/wholeBodyTorqueObserver/main.cpp\<close>) consists of the free
  function \<^verbatim>\<open>lpf_ord1_3hz\<close>, the rate thread \<^verbatim>\<open>inverseDynamics\<close>, the port callback
  \<^verbatim>\<open>dataFilter\<close> and the module class. A value of type \<^verbatim>\<open>double\<close> is modelled as the real
  number it stands for. The arithmetic of the filter, of the cycle and of the joint
  angles is that of the real numbers; the arithmetic of the offset calibration, whose
  result depends on it, rounds every operation to binary64 (section
  \<open>Binary64 arithmetic\<close>). A \<^verbatim>\<open>yarp::sig::Vector\<close> is a list of reals, a \<^verbatim>\<open>Matrix\<close> the
  list of its rows, a \<^verbatim>\<open>Bottle\<close> the list of its items.
\<close>

type_synonym vec = "real list"
type_synonym matrix = "real list list"

datatype bottle_item = BInt int | BDouble real
type_synonym bottle = "bottle_item list"

text \<open>
  The vector operators of \<^verbatim>\<open>yarp::math\<close> used by the module work element by element;
  on operands of one length (all wrenches have six entries) \<open>map2\<close> is that operation.
  \<^verbatim>\<open>v = 0.0\<close> and \<^verbatim>\<open>v.zero()\<close> keep the length of \<open>v\<close>.
\<close>

definition smul :: "real \<Rightarrow> vec \<Rightarrow> vec" where
  "smul k v = map (\<lambda>x. k * x) v"

definition vsub :: "vec \<Rightarrow> vec \<Rightarrow> vec" where
  "vsub a b = map2 (\<lambda>x y. x - y) a b"

definition vadd :: "vec \<Rightarrow> vec \<Rightarrow> vec" where
  "vadd a b = map2 (\<lambda>x y. x + y) a b"

definition zero_vec :: "vec \<Rightarrow> vec" where
  "zero_vec v = replicate (length v) 0"

definition getCol :: "matrix \<Rightarrow> nat \<Rightarrow> vec" where
  "getCol M c = map (\<lambda>row. row ! c) M"

section \<open>Binary64 arithmetic\<close>

text \<open>
  An arithmetic operation on \<^verbatim>\<open>double\<close> returns the binary64 number nearest to its exact
  result, ties going to the even significand (IEEE 754, the default rounding mode).
  \<open>rnd64\<close> is that rounding: \<open>binade x\<close> is the exponent \<open>e\<close> with \<open>2^e \<le> \<bar>x\<bar> < 2^(e+1)\<close>,
  computed from the bit length \<open>ilog2\<close> of the integer part of \<open>\<bar>x\<bar>\<close> or of \<open>1/\<bar>x\<bar>\<close>;
  \<open>ulp64 x\<close> is the spacing of the binary64 numbers of that binade, \<open>2^(e-52)\<close>, and
  \<open>2^-1074\<close> for the subnormal numbers below \<open>2^-1022\<close>; \<open>rnd64 x\<close> is the multiple of
  \<open>ulp64 x\<close> nearest to \<open>x\<close>. The exponent has no upper bound here: binary64 replaces a
  result of magnitude \<open>2^1024\<close> and above by an infinity, which is not a real number, so
  the statements about rounded results are about magnitudes below that. A number is a
  binary64 number, \<open>is_binary64\<close>, when rounding leaves it unchanged.
\<close>

function ilog2 :: "int \<Rightarrow> int" where
  "ilog2 n = (if n < 2 then 0 else 1 + ilog2 (n div 2))"
  by pat_completeness auto
termination by (relation "measure nat") auto

declare ilog2.simps [simp del]

definition binade :: "real \<Rightarrow> int" where
  "binade x =
     (let a = \<bar>x\<bar> in
      if 1 \<le> a then ilog2 \<lfloor>a\<rfloor>
      else (let k = ilog2 \<lfloor>1 / a\<rfloor> in if 1 / a = 2 powi k then - k else - k - 1))"

definition ulp64 :: "real \<Rightarrow> real" where
  "ulp64 x = 2 powi (max (binade x) (- 1022) - 52)"

definition round_even :: "real \<Rightarrow> int" where
  "round_even y =
     (let r = \<lfloor>y\<rfloor>; d = y - of_int r in
      if d < 1 / 2 then r else if 1 / 2 < d then r + 1 else if even r then r else r + 1)"

definition rnd64 :: "real \<Rightarrow> real" where
  "rnd64 x = of_int (round_even (x / ulp64 x)) * ulp64 x"

definition is_binary64 :: "real \<Rightarrow> bool" where
  "is_binary64 x = (rnd64 x = x)"

text \<open>
  The vector operators in binary64: every entry of the result is rounded.
\<close>

definition smul64 :: "real \<Rightarrow> vec \<Rightarrow> vec" where
  "smul64 k v = map (\<lambda>x. rnd64 (k * x)) v"

definition vsub64 :: "vec \<Rightarrow> vec \<Rightarrow> vec" where
  "vsub64 a b = map2 (\<lambda>x y. rnd64 (x - y)) a b"

definition vadd64 :: "vec \<Rightarrow> vec \<Rightarrow> vec" where
  "vadd64 a b = map2 (\<lambda>x y. rnd64 (x + y)) a b"

section \<open>The first-order low-pass filter and the inertial prefilter\<close>

text \<open>
  \<^verbatim>\<open>lpf_ord1_3hz\<close> keeps two function-static arrays \<^verbatim>\<open>xv[MAX_FILTER_ORDER][MAX_JN]\<close> and
  \<^verbatim>\<open>yv[MAX_FILTER_ORDER][MAX_JN]\<close>, zero at program start. They are the memory that the
  model passes in and returns. An index outside \<open>0 \<le> j < MAX_JN\<close> is refused: the
  function returns 0 and leaves the memory alone.
\<close>

definition MAX_JN :: int where
  "MAX_JN = 12"

record lpf_memory =
  xv :: "nat \<Rightarrow> nat \<Rightarrow> real"
  yv :: "nat \<Rightarrow> nat \<Rightarrow> real"

definition lpf_zero :: lpf_memory where
  "lpf_zero = \<lparr>xv = (\<lambda>k j. 0), yv = (\<lambda>k j. 0)\<rparr>"

definition lpf_ord1_3hz :: "lpf_memory \<Rightarrow> real \<Rightarrow> int \<Rightarrow> real \<times> lpf_memory" where
  "lpf_ord1_3hz m input j =
     (if j < 0 \<or> j \<ge> MAX_JN then (0, m)
      else
        let c = nat j;
            xv1 = (xv m)(0 := (xv m 0)(c := xv m 1 c));
            xv2 = xv1(1 := (xv1 1)(c := input / 18.70043440));
            yv1 = (yv m)(0 := (yv m 0)(c := yv m 1 c));
            yv2 = yv1(1 := (yv1 1)(c := (xv2 0 c + xv2 1 c) + 0.8930506128 * yv1 0 c))
        in (yv2 1 c, m\<lparr>xv := xv2, yv := yv2\<rparr>))"

text \<open>
  \<^verbatim>\<open>dataFilter::onRead\<close>: the loop \<^verbatim>\<open>for (i = 0; i < sz; i++) inertial(i) = lpf_ord1_3hz(x(i), i)\<close>
  over the items of the inbound bottle, then the six entries 3..8 of the filtered vector
  are written to the output port (the envelope is passed on unchanged and is left out).
  A bottle with fewer than nine items makes the C++ read \<^verbatim>\<open>inertial\<close> out of range.
\<close>

fun filter_loop :: "lpf_memory \<Rightarrow> nat \<Rightarrow> real list \<Rightarrow> vec \<times> lpf_memory" where
  "filter_loop m i [] = ([], m)"
| "filter_loop m i (x # xs) =
     (let (y, m1) = lpf_ord1_3hz m x (int i);
          (ys, m2) = filter_loop m1 (Suc i) xs
      in (y # ys, m2))"

definition onRead :: "lpf_memory \<Rightarrow> real list \<Rightarrow> vec \<times> lpf_memory" where
  "onRead m b =
     (let (inertial, m1) = filter_loop m 0 b
      in ([inertial ! 3, inertial ! 4, inertial ! 5, inertial ! 6, inertial ! 7, inertial ! 8], m1))"

text \<open>
  The response of one channel to a constant input 1 from zero memory: \<open>unit_step j n\<close> is
  the memory after \<open>n\<close> calls \<^verbatim>\<open>lpf_ord1_3hz(1.0, j)\<close>, \<open>step_response j n\<close> the value
  returned by call number \<open>n\<close> (counted from 0), and \<open>K_gain\<close> the constant
  \<open>2 / (18.70043440 * (1 - 0.8930506128))\<close>.
\<close>

fun unit_step :: "int \<Rightarrow> nat \<Rightarrow> lpf_memory" where
  "unit_step j 0 = lpf_zero"
| "unit_step j (Suc n) = snd (lpf_ord1_3hz (unit_step j n) 1 j)"

definition step_response :: "int \<Rightarrow> nat \<Rightarrow> real" where
  "step_response j n = fst (lpf_ord1_3hz (unit_step j n) 1 j)"

definition K_gain :: real where
  "K_gain = 2 / (18.70043440 * (1 - 0.8930506128))"

section \<open>The collaborators of the thread\<close>

text \<open>
  The rigid-body model (\<^verbatim>\<open>iCub::iDyn::iCubWholeBody\<close>), the derivative estimators
  (\<^verbatim>\<open>AWLinEstimator\<close>, \<^verbatim>\<open>AWQuadEstimator\<close>) and the constant \<^verbatim>\<open>CTRL_DEG2RAD\<close> come from
  libraries outside this file. A torso node of the model is the store of what the module
  sets on it (joint angles, velocities and accelerations per limb name, the inertial
  measure, the sensor wrenches) together with the results of its last evaluation; the
  evaluations themselves are parameters.
\<close>

record limb =
  Ang :: vec
  DAng :: vec
  D2Ang :: vec

record results =
  TorsoAngVel :: vec
  TorsoAngAcc :: vec
  TorsoLinAcc :: vec
  Torques :: "string \<Rightarrow> vec"

record node =
  limbs :: "string \<Rightarrow> limb"
  w_in :: vec
  dw_in :: vec
  d2p_in :: vec
  FM_right :: vec
  FM_left :: vec
  FM_up :: vec
  res :: results

record iCubWholeBody =
  upperTorso :: node
  lowerTorso :: node

definition setAng :: "string \<Rightarrow> vec \<Rightarrow> node \<Rightarrow> node" where
  "setAng l v n = n\<lparr>limbs := (limbs n)(l := (limbs n l)\<lparr>Ang := v\<rparr>)\<rparr>"

definition setDAng :: "string \<Rightarrow> vec \<Rightarrow> node \<Rightarrow> node" where
  "setDAng l v n = n\<lparr>limbs := (limbs n)(l := (limbs n l)\<lparr>DAng := v\<rparr>)\<rparr>"

definition setD2Ang :: "string \<Rightarrow> vec \<Rightarrow> node \<Rightarrow> node" where
  "setD2Ang l v n = n\<lparr>limbs := (limbs n)(l := (limbs n l)\<lparr>D2Ang := v\<rparr>)\<rparr>"

definition setInertialMeasure :: "vec \<Rightarrow> vec \<Rightarrow> vec \<Rightarrow> node \<Rightarrow> node" where
  "setInertialMeasure w dw d2p n = n\<lparr>w_in := w, dw_in := dw, d2p_in := d2p\<rparr>"

definition getTorsoAngVel :: "node \<Rightarrow> vec" where
  "getTorsoAngVel n = TorsoAngVel (res n)"

definition getTorsoAngAcc :: "node \<Rightarrow> vec" where
  "getTorsoAngAcc n = TorsoAngAcc (res n)"

definition getTorsoLinAcc :: "node \<Rightarrow> vec" where
  "getTorsoLinAcc n = TorsoLinAcc (res n)"

definition getTorques :: "node \<Rightarrow> string \<Rightarrow> vec" where
  "getTorques n l = Torques (res n) l"

text \<open>
  \<^verbatim>\<open>update(w0, dw0, d2p0, FM_right, FM_left, FM_up)\<close> stores its arguments on the node and
  evaluates the dynamics \<open>dyn\<close> of the chain on the node so prepared.
  \<^verbatim>\<open>estimateSensorsWrench(F_ext, false)\<close> evaluates the chain for the sensor wrenches
  \<open>sens\<close>, returns the 6x2 matrix of predictions and leaves the torso results on the node.
\<close>

definition update ::
  "(node \<Rightarrow> results) \<Rightarrow> vec \<Rightarrow> vec \<Rightarrow> vec \<Rightarrow> vec \<Rightarrow> vec \<Rightarrow> vec \<Rightarrow> node \<Rightarrow> node" where
  "update dyn w dw d2p FR FL Fup n =
     (let n1 = (setInertialMeasure w dw d2p n)\<lparr>FM_right := FR, FM_left := FL, FM_up := Fup\<rparr>
      in n1\<lparr>res := dyn n1\<rparr>)"

definition estimateSensorsWrench ::
  "(node \<Rightarrow> matrix \<Rightarrow> matrix \<times> results) \<Rightarrow> matrix \<Rightarrow> node \<Rightarrow> matrix \<times> node" where
  "estimateSensorsWrench sens F_ext n =
     (let (F_sensor, r) = sens n F_ext in (F_sensor, n\<lparr>res := r\<rparr>))"

text \<open>
  An estimator has a state of its own (its window of past samples, and the clock that
  stamps each sample with \<^verbatim>\<open>Time::now()\<close>); \<open>estimate\<close> maps that state and the new
  sample to the estimate and the next state.
\<close>

record 'e collaborators =
  CTRL_DEG2RAD :: real
  lin_estimate :: "'e \<Rightarrow> vec \<Rightarrow> vec \<times> 'e"
  quad_estimate :: "'e \<Rightarrow> vec \<Rightarrow> vec \<times> 'e"
  upper_dynamics :: "node \<Rightarrow> results"
  lower_dynamics :: "node \<Rightarrow> results"
  upper_sensors :: "node \<Rightarrow> matrix \<Rightarrow> matrix \<times> results"
  lower_sensors :: "node \<Rightarrow> matrix \<Rightarrow> matrix \<times> results"

text \<open>
  What the outside delivers to one pass of \<^verbatim>\<open>readAndUpdate\<close>: for each input port the
  frame returned by \<^verbatim>\<open>read\<close> (\<open>None\<close> is the null pointer: nothing new on a non-blocking
  read, an interrupted port on a blocking one), and for each encoder interface the effect
  of \<^verbatim>\<open>getEncoders\<close> on the buffer it is given: the success flag and the buffer afterwards.
\<close>

record cycle_input =
  port_ft_arm_left :: "vec option"
  port_ft_arm_right :: "vec option"
  port_ft_leg_left :: "vec option"
  port_ft_leg_right :: "vec option"
  port_inertial_thread :: "vec option"
  iencs_arm_left :: "vec \<Rightarrow> bool \<times> vec"
  iencs_arm_right :: "vec \<Rightarrow> bool \<times> vec"
  iencs_head :: "vec \<Rightarrow> bool \<times> vec"
  iencs_leg_left :: "vec \<Rightarrow> bool \<times> vec"
  iencs_leg_right :: "vec \<Rightarrow> bool \<times> vec"
  iencs_torso :: "vec \<Rightarrow> bool \<times> vec"

section \<open>The state of the thread\<close>

text \<open>
  The fields of \<^verbatim>\<open>class inverseDynamics\<close> that its computations read or write, under
  their own names. The mode fields \<^verbatim>\<open>test\<close> and \<^verbatim>\<open>comp\<close> are set to 0 by the constructor
  and assigned nowhere else, so the branches guarded by \<^verbatim>\<open>test==VOCAB_TEST\<close>,
  \<^verbatim>\<open>test==VOCAB_COMP\<close> and \<^verbatim>\<open>comp==VOCAB_COMP\<close> never run; they are left out together
  with the timing fields and the performance ports they alone use.
\<close>

datatype thread_status_enum = STATUS_OK | STATUS_DISCONNECTED

datatype port = port_RATorques | port_RLTorques | port_LATorques | port_LLTorques

record 'e inverseDynamics =
  ft_arm_left :: "vec option"
  ft_arm_right :: "vec option"
  inertial :: "vec option"
  ft_leg_left :: "vec option"
  ft_leg_right :: "vec option"
  thread_status :: thread_status_enum
  InertialEst :: 'e
  linEstUp :: 'e
  quadEstUp :: 'e
  linEstLow :: 'e
  quadEstLow :: 'e
  icub :: iCubWholeBody
  icub_sens :: iCubWholeBody
  encoders_arm_left :: vec
  encoders_arm_right :: vec
  encoders_head :: vec
  encoders_leg_left :: vec
  encoders_leg_right :: vec
  encoders_torso :: vec
  q_head :: vec
  dq_head :: vec
  d2q_head :: vec
  q_larm :: vec
  dq_larm :: vec
  d2q_larm :: vec
  q_rarm :: vec
  dq_rarm :: vec
  d2q_rarm :: vec
  all_q_up :: vec
  all_dq_up :: vec
  all_d2q_up :: vec
  q_torso :: vec
  dq_torso :: vec
  d2q_torso :: vec
  q_lleg :: vec
  dq_lleg :: vec
  d2q_lleg :: vec
  q_rleg :: vec
  dq_rleg :: vec
  d2q_rleg :: vec
  all_q_low :: vec
  all_dq_low :: vec
  all_d2q_low :: vec
  w0 :: vec
  dw0 :: vec
  d2p0 :: vec
  F_LArm :: vec
  F_RArm :: vec
  F_iDyn_LArm :: vec
  F_iDyn_RArm :: vec
  Offset_LArm :: vec
  Offset_RArm :: vec
  F_LLeg :: vec
  F_RLeg :: vec
  F_iDyn_LLeg :: vec
  F_iDyn_RLeg :: vec
  Offset_LLeg :: vec
  Offset_RLeg :: vec
  F_ext_up :: matrix
  F_ext_low :: matrix
  inertial_measurements :: vec

section \<open>Reading the encoders\<close>

text \<open>
  The three loops that fill the position vectors have one shape,
  \<^verbatim>\<open>for (i = 0; i < q.length(); i++) { q(i) = enc(src i); all_q(off + i) = q(i); }\<close>,
  and so have the three loops that slice the estimates back,
  \<^verbatim>\<open>for (i = 0; i < q.length(); i++) { dq(i) = all_dq(i + off); d2q(i) = all_d2q(i + off); }\<close>.
  The element accesses of a \<^verbatim>\<open>Vector\<close> are unchecked: the model agrees with the C++
  where every index is in range (the theorems that depend on it say so), and the index
  \<^verbatim>\<open>2-i\<close> of the torso loop is the natural-number difference because \<^verbatim>\<open>q_torso\<close> has
  three entries.
\<close>

definition copy_loop :: "(nat \<Rightarrow> nat) \<Rightarrow> nat \<Rightarrow> vec \<Rightarrow> vec \<Rightarrow> vec \<Rightarrow> vec \<times> vec" where
  "copy_loop src off enc q all_q =
     fold (\<lambda>i (q, all_q). let q1 = q[i := enc ! src i] in (q1, all_q[off + i := q1 ! i]))
          [0..<length q] (q, all_q)"

definition slice_loop :: "nat \<Rightarrow> nat \<Rightarrow> vec \<Rightarrow> vec \<Rightarrow> vec \<Rightarrow> vec \<Rightarrow> vec \<times> vec" where
  "slice_loop off n all_dq all_d2q dq d2q =
     fold (\<lambda>i (dq, d2q). (dq[i := all_dq ! (i + off)], d2q[i := all_d2q ! (i + off)]))
          [0..<n] (dq, d2q)"

definition getLowerEncodersSpeedAndAcceleration ::
  "'e collaborators \<Rightarrow> cycle_input \<Rightarrow> 'e inverseDynamics \<Rightarrow> bool \<times> 'e inverseDynamics" where
  "getLowerEncodersSpeedAndAcceleration C inp s =
     (let (b1, e_ll) = iencs_leg_left inp (encoders_leg_left s);
          (b2, e_rl) = iencs_leg_right inp (encoders_leg_right s);
          (b3, e_t) = iencs_torso inp (encoders_torso s);
          (qt, a1) = copy_loop (\<lambda>i. 2 - i) 0 e_t (q_torso s) (all_q_low s);
          (ql, a2) = copy_loop (\<lambda>i. i) (length qt) e_ll (q_lleg s) a1;
          (qr, a3) = copy_loop (\<lambda>i. i) (length qt + length ql) e_rl (q_rleg s) a2;
          (v, lin) = lin_estimate C (linEstLow s) a3;
          (a, quad) = quad_estimate C (quadEstLow s) a3;
          (dqt, d2qt) = slice_loop 0 (length qt) v a (dq_torso s) (d2q_torso s);
          (dql, d2ql) = slice_loop (length qt) (length ql) v a (dq_lleg s) (d2q_lleg s);
          (dqr, d2qr) = slice_loop (length qt + length ql) (length qr) v a (dq_rleg s) (d2q_rleg s)
      in (b1 \<and> b2 \<and> b3,
          s\<lparr>encoders_leg_left := e_ll, encoders_leg_right := e_rl, encoders_torso := e_t,
            q_torso := qt, q_lleg := ql, q_rleg := qr, all_q_low := a3,
            all_dq_low := v, all_d2q_low := a, linEstLow := lin, quadEstLow := quad,
            dq_torso := dqt, d2q_torso := d2qt, dq_lleg := dql, d2q_lleg := d2ql,
            dq_rleg := dqr, d2q_rleg := d2qr\<rparr>))"

definition getUpperEncodersSpeedAndAcceleration ::
  "'e collaborators \<Rightarrow> cycle_input \<Rightarrow> 'e inverseDynamics \<Rightarrow> bool \<times> 'e inverseDynamics" where
  "getUpperEncodersSpeedAndAcceleration C inp s =
     (let (b1, e_la) = iencs_arm_left inp (encoders_arm_left s);
          (b2, e_ra) = iencs_arm_right inp (encoders_arm_right s);
          (b3, e_h) = iencs_head inp (encoders_head s);
          (qh, a1) = copy_loop (\<lambda>i. i) 0 e_h (q_head s) (all_q_up s);
          (ql, a2) = copy_loop (\<lambda>i. i) (length qh) e_la (q_larm s) a1;
          (qr, a3) = copy_loop (\<lambda>i. i) (length qh + length ql) e_ra (q_rarm s) a2;
          (v, lin) = lin_estimate C (linEstUp s) a3;
          (a, quad) = quad_estimate C (quadEstUp s) a3;
          (dqh, d2qh) = slice_loop 0 (length qh) v a (dq_head s) (d2q_head s);
          (dql, d2ql) = slice_loop (length qh) (length ql) v a (dq_larm s) (d2q_larm s);
          (dqr, d2qr) = slice_loop (length qh + length ql) (length qr) v a (dq_rarm s) (d2q_rarm s)
      in (b1 \<and> b2 \<and> b3,
          s\<lparr>encoders_arm_left := e_la, encoders_arm_right := e_ra, encoders_head := e_h,
            q_head := qh, q_larm := ql, q_rarm := qr, all_q_up := a3,
            all_dq_up := v, all_d2q_up := a, linEstUp := lin, quadEstUp := quad,
            dq_head := dqh, d2q_head := d2qh, dq_larm := dql, d2q_larm := d2ql,
            dq_rarm := dqr, d2q_rarm := d2qr\<rparr>))"

section \<open>Passing the joint state to the model\<close>

text \<open>
  \<^verbatim>\<open>setLowerMeasure(_init)\<close> and \<^verbatim>\<open>setUpperMeasure(_init)\<close> make the same sequence of calls
  on \<^verbatim>\<open>icub\<close> (when \<^verbatim>\<open>_init\<close> is false) or on \<^verbatim>\<open>icub_sens\<close> (when it is true); the sequence
  is \<open>lower_measure\<close> and \<open>upper_measure\<close>.
\<close>

definition lower_measure :: "real \<Rightarrow> 'e inverseDynamics \<Rightarrow> node \<Rightarrow> node" where
  "lower_measure k s n =
     (let n1 = setAng ''torso'' (smul k (q_torso s)) n;
          n2 = setDAng ''torso'' (smul k (dq_torso s)) n1;
          n3 = setD2Ang ''torso'' (smul k (d2q_torso s)) n2;
          n4 = setAng ''left_leg'' (smul k (q_lleg s)) n3;
          n5 = setDAng ''left_leg'' (smul k (dq_lleg s)) n4;
          n6 = setD2Ang ''left_leg'' (smul k (d2q_lleg s)) n5;
          n7 = setAng ''right_leg'' (smul k (q_rleg s)) n6;
          n8 = setDAng ''right_leg'' (smul k (dq_rleg s)) n7
      in setD2Ang ''right_leg'' (smul k (d2q_rleg s)) n8)"

definition setLowerMeasure :: "'e collaborators \<Rightarrow> bool \<Rightarrow> 'e inverseDynamics \<Rightarrow> 'e inverseDynamics" where
  "setLowerMeasure C init s =
     (if \<not> init
      then s\<lparr>icub := (icub s)\<lparr>lowerTorso := lower_measure (CTRL_DEG2RAD C) s (lowerTorso (icub s))\<rparr>\<rparr>
      else s\<lparr>icub_sens := (icub_sens s)\<lparr>lowerTorso :=
               lower_measure (CTRL_DEG2RAD C) s (lowerTorso (icub_sens s))\<rparr>\<rparr>)"

definition upper_measure :: "real \<Rightarrow> 'e inverseDynamics \<Rightarrow> node \<Rightarrow> node" where
  "upper_measure k s n =
     (let n1 = setAng ''head'' (smul k (q_head s)) n;
          n2 = setAng ''left_arm'' (smul k (q_larm s)) n1;
          n3 = setAng ''right_arm'' (smul k (q_rarm s)) n2;
          n4 = setDAng ''head'' (smul k (dq_head s)) n3;
          n5 = setDAng ''left_arm'' (smul k (dq_larm s)) n4;
          n6 = setDAng ''right_arm'' (smul k (dq_rarm s)) n5;
          n7 = setD2Ang ''head'' (smul k (d2q_head s)) n6;
          n8 = setD2Ang ''left_arm'' (smul k (d2q_larm s)) n7;
          n9 = setD2Ang ''right_arm'' (smul k (d2q_rarm s)) n8
      in setInertialMeasure (w0 s) (dw0 s) (d2p0 s) n9)"

definition setUpperMeasure :: "'e collaborators \<Rightarrow> bool \<Rightarrow> 'e inverseDynamics \<Rightarrow> 'e inverseDynamics" where
  "setUpperMeasure C init s =
     (if \<not> init
      then s\<lparr>icub := (icub s)\<lparr>upperTorso := upper_measure (CTRL_DEG2RAD C) s (upperTorso (icub s))\<rparr>\<rparr>
      else s\<lparr>icub_sens := (icub_sens s)\<lparr>upperTorso :=
               upper_measure (CTRL_DEG2RAD C) s (upperTorso (icub_sens s))\<rparr>\<rparr>)"

definition setZeroJntAngVelAcc :: "'e inverseDynamics \<Rightarrow> 'e inverseDynamics" where
  "setZeroJntAngVelAcc s =
     s\<lparr>dq_head := zero_vec (dq_head s), d2q_head := zero_vec (d2q_head s),
       dq_larm := zero_vec (dq_larm s), d2q_larm := zero_vec (d2q_larm s),
       dq_rarm := zero_vec (dq_rarm s), d2q_rarm := zero_vec (d2q_rarm s),
       dq_rleg := zero_vec (dq_rleg s), d2q_rleg := zero_vec (d2q_rleg s),
       dq_lleg := zero_vec (dq_lleg s), d2q_lleg := zero_vec (d2q_lleg s),
       dq_torso := zero_vec (dq_torso s), d2q_torso := zero_vec (d2q_torso s)\<rparr>"

section \<open>One pass of input: readAndUpdate\<close>

text \<open>
  The five port reads overwrite the five frame pointers with what the ports deliver;
  \<open>waitMeasure\<close> only selects between the blocking and the non-blocking read, and what
  either returns is in the input. A new inertial frame sets \<^verbatim>\<open>d2p0\<close> and \<^verbatim>\<open>w0\<close> from its
  first six entries and \<^verbatim>\<open>dw0\<close> from the estimator (a frame with fewer than six
  entries makes the C++ read out of range). Both encoder reads are made whatever the
  first returns (\<^verbatim>\<open>b &= ...\<close>).
\<close>

definition readAndUpdate ::
  "'e collaborators \<Rightarrow> bool \<Rightarrow> bool \<Rightarrow> cycle_input \<Rightarrow> 'e inverseDynamics
     \<Rightarrow> bool \<times> 'e inverseDynamics" where
  "readAndUpdate C waitMeasure init inp s =
     (let s1 = s\<lparr>ft_arm_left := port_ft_arm_left inp, ft_arm_right := port_ft_arm_right inp,
                 ft_leg_left := port_ft_leg_left inp, ft_leg_right := port_ft_leg_right inp,
                 inertial := port_inertial_thread inp\<rparr>;
          s2 = (case inertial s1 of
                  None \<Rightarrow> s1
                | Some im \<Rightarrow>
                    let d2p = (d2p0 s1)[0 := im ! 0, 1 := im ! 1, 2 := im ! 2];
                        w = (w0 s1)[0 := im ! 3, 1 := im ! 4, 2 := im ! 5];
                        (dw, est) = lin_estimate C (InertialEst s1) w
                    in s1\<lparr>inertial_measurements := im, d2p0 := d2p, w0 := w, dw0 := dw,
                          InertialEst := est\<rparr>);
          (b1, s3) = getUpperEncodersSpeedAndAcceleration C inp s2;
          s4 = setUpperMeasure C init s3;
          (b2, s5) = getLowerEncodersSpeedAndAcceleration C inp s4;
          s6 = setLowerMeasure C init s5
      in (b1 \<and> b2, s6))"

section \<open>The cycle: run\<close>

definition writeTorque :: "vec \<Rightarrow> int \<Rightarrow> port \<Rightarrow> port \<times> bottle" where
  "writeTorque values address p = (p, BInt address # map BDouble values)"

text \<open>
  \<open>run\<close> returns the state after the cycle and the bottles written to the torque ports,
  in the order of the writes. The torques of the head and of the torso are read from the
  model (\<^verbatim>\<open>HDTorques\<close>, \<^verbatim>\<open>TSTorques\<close>) and not used.
\<close>

definition run ::
  "'e collaborators \<Rightarrow> cycle_input \<Rightarrow> 'e inverseDynamics
     \<Rightarrow> 'e inverseDynamics \<times> (port \<times> bottle) list" where
  "run C inp s =
     (let s1 = s\<lparr>thread_status := STATUS_OK\<rparr>;
          (b, s2) = readAndUpdate C False False inp s1;
          s3 = (if b = False then s2\<lparr>thread_status := STATUS_DISCONNECTED\<rparr> else s2);
          s4 = setZeroJntAngVelAcc s3;
          s5 = setUpperMeasure C False s4;
          s6 = setLowerMeasure C False s5;
          s7 = (case ft_arm_left s6 of None \<Rightarrow> s6
                | Some f \<Rightarrow> s6\<lparr>F_LArm := smul (- 1) (vsub f (Offset_LArm s6))\<rparr>);
          s8 = (case ft_arm_right s7 of None \<Rightarrow> s7
                | Some f \<Rightarrow> s7\<lparr>F_RArm := smul (- 1) (vsub f (Offset_RArm s7))\<rparr>);
          s9 = (case ft_leg_left s8 of None \<Rightarrow> s8
                | Some f \<Rightarrow> s8\<lparr>F_LLeg := smul (- 1) (vsub f (Offset_LLeg s8))\<rparr>);
          s10 = (case ft_leg_right s9 of None \<Rightarrow> s9
                | Some f \<Rightarrow> s9\<lparr>F_RLeg := smul (- 1) (vsub f (Offset_RLeg s9))\<rparr>);
          F_up = replicate 6 0;
          up = update (upper_dynamics C) (w0 s10) (dw0 s10) (d2p0 s10) (F_RArm s10) (F_LArm s10)
                 F_up (upperTorso (icub s10));
          low = update (lower_dynamics C) (getTorsoAngVel up) (getTorsoAngAcc up)
                 (getTorsoLinAcc up) (F_RLeg s10) (F_LLeg s10) F_up (lowerTorso (icub s10));
          s11 = s10\<lparr>icub := (icub s10)\<lparr>upperTorso := up, lowerTorso := low\<rparr>\<rparr>;
          LATorques = getTorques up ''left_arm'';
          RATorques = getTorques up ''right_arm'';
          LLTorques = getTorques low ''left_leg'';
          RLTorques = getTorques low ''right_leg''
      in (s11, [writeTorque RLTorques 2 port_RLTorques, writeTorque LLTorques 2 port_LLTorques,
                writeTorque RATorques 1 port_RATorques, writeTorque LATorques 1 port_LATorques]))"

text \<open>Consecutive cycles, one input each.\<close>

fun run_cycles :: "'e collaborators \<Rightarrow> cycle_input list \<Rightarrow> 'e inverseDynamics \<Rightarrow> 'e inverseDynamics" where
  "run_cycles C [] s = s"
| "run_cycles C (inp # inps) s = run_cycles C inps (fst (run C inp s))"

section \<open>Calibration of the sensor offsets\<close>

text \<open>
  One iteration of the loop of \<^verbatim>\<open>calibrateOffset\<close> is \<open>calib_trial\<close>. It dereferences the
  four frame pointers; a null pointer there ends the program, which is the value
  \<open>NullFrame\<close>. The final scaling is by \<^verbatim>\<open>1.0/(double)Ntrials\<close>; for \<^verbatim>\<open>Ntrials = 0\<close> that is
  infinity times zero, not a number, which is the value \<open>NotANumber\<close>. The products
  \<^verbatim>\<open>-1.0 * F_sensor.getCol(c)\<close>, the differences \<^verbatim>\<open>F - F_iDyn\<close>, the running sums
  \<^verbatim>\<open>Offset + (F - F_iDyn)\<close>, the quotient \<^verbatim>\<open>1.0/(double)Ntrials\<close> and the final products are
  operations on \<^verbatim>\<open>double\<close>: each rounds its result to binary64. The conversion
  \<^verbatim>\<open>(double)Ntrials\<close> of an \<^verbatim>\<open>unsigned int\<close> is exact.
\<close>

datatype fault = NullFrame | NotANumber

definition calib_trial ::
  "'e collaborators \<Rightarrow> cycle_input \<Rightarrow> 'e inverseDynamics \<Rightarrow> fault + 'e inverseDynamics" where
  "calib_trial C inp s =
     (let (b, s1) = readAndUpdate C True True inp s;
          up1 = setInertialMeasure (w0 s1) (dw0 s1) (d2p0 s1) (upperTorso (icub_sens s1));
          (F_sensor_up, up2) = estimateSensorsWrench (upper_sensors C) (F_ext_up s1) up1;
          low1 = setInertialMeasure (getTorsoAngVel up2) (getTorsoAngAcc up2) (getTorsoLinAcc up2)
                   (lowerTorso (icub_sens s1));
          (F_sensor_low, low2) = estimateSensorsWrench (lower_sensors C) (F_ext_low s1) low1;
          s2 = s1\<lparr>icub_sens := (icub_sens s1)\<lparr>upperTorso := up2, lowerTorso := low2\<rparr>,
                  F_iDyn_LArm := smul64 (- 1) (getCol F_sensor_up 1),
                  F_iDyn_RArm := smul64 (- 1) (getCol F_sensor_up 0),
                  F_iDyn_LLeg := smul64 (- 1) (getCol F_sensor_low 1),
                  F_iDyn_RLeg := smul64 (- 1) (getCol F_sensor_low 0)\<rparr>
      in case (ft_arm_right s2, ft_arm_left s2, ft_leg_right s2, ft_leg_left s2) of
           (Some f_ra, Some f_la, Some f_rl, Some f_ll) \<Rightarrow>
             (let s3 = s2\<lparr>F_RArm := f_ra, F_LArm := f_la, F_RLeg := f_rl, F_LLeg := f_ll\<rparr>
              in Inr (s3\<lparr>Offset_LArm := vadd64 (Offset_LArm s3) (vsub64 (F_LArm s3) (F_iDyn_LArm s3)),
                         Offset_RArm := vadd64 (Offset_RArm s3) (vsub64 (F_RArm s3) (F_iDyn_RArm s3)),
                         Offset_LLeg := vadd64 (Offset_LLeg s3) (vsub64 (F_LLeg s3) (F_iDyn_LLeg s3)),
                         Offset_RLeg := vadd64 (Offset_RLeg s3) (vsub64 (F_RLeg s3) (F_iDyn_RLeg s3))\<rparr>))
         | _ \<Rightarrow> Inl NullFrame)"

text \<open>
  The loop \<^verbatim>\<open>for (i = 0; i < Ntrials; i++)\<close>: \<open>env i\<close> is what the outside delivers to
  iteration \<open>i\<close>, and \<open>calib_loop C env i n s\<close> runs the \<open>n\<close> iterations from number \<open>i\<close> on.
\<close>

fun calib_loop ::
  "'e collaborators \<Rightarrow> (nat \<Rightarrow> cycle_input) \<Rightarrow> nat \<Rightarrow> nat \<Rightarrow> 'e inverseDynamics
     \<Rightarrow> fault + 'e inverseDynamics" where
  "calib_loop C env i 0 s = Inr s"
| "calib_loop C env i (Suc n) s =
     (case calib_trial C (env i) s of
        Inl e \<Rightarrow> Inl e
      | Inr s1 \<Rightarrow> calib_loop C env (Suc i) n s1)"

definition calibrateOffset ::
  "'e collaborators \<Rightarrow> nat \<Rightarrow> (nat \<Rightarrow> cycle_input) \<Rightarrow> 'e inverseDynamics
     \<Rightarrow> fault + 'e inverseDynamics" where
  "calibrateOffset C Ntrials env s =
     (let s0 = s\<lparr>Offset_LArm := zero_vec (Offset_LArm s), Offset_RArm := zero_vec (Offset_RArm s),
                 Offset_LLeg := zero_vec (Offset_LLeg s), Offset_RLeg := zero_vec (Offset_RLeg s)\<rparr>
      in case calib_loop C env 0 Ntrials s0 of
           Inl e \<Rightarrow> Inl e
         | Inr s1 \<Rightarrow>
             if Ntrials = 0 then Inl NotANumber
             else Inr (s1\<lparr>Offset_LArm := smul64 (rnd64 (1 / real Ntrials)) (Offset_LArm s1),
                          Offset_RArm := smul64 (rnd64 (1 / real Ntrials)) (Offset_RArm s1),
                          Offset_LLeg := smul64 (rnd64 (1 / real Ntrials)) (Offset_LLeg s1),
                          Offset_RLeg := smul64 (rnd64 (1 / real Ntrials)) (Offset_RLeg s1)\<rparr>))"

definition threadInit ::
  "'e collaborators \<Rightarrow> (nat \<Rightarrow> cycle_input) \<Rightarrow> 'e inverseDynamics \<Rightarrow> fault + 'e inverseDynamics" where
  "threadInit C env s =
     (case calibrateOffset C 10 env s of
        Inl e \<Rightarrow> Inl e
      | Inr s1 \<Rightarrow> Inr (s1\<lparr>thread_status := STATUS_OK\<rparr>))"

section \<open>Construction\<close>

text \<open>
  The constructor sizes the buffers from the numbers of axes that \<^verbatim>\<open>getAxes\<close> reports for
  the six encoder interfaces (\<^verbatim>\<open>init_upper\<close>, \<^verbatim>\<open>init_lower\<close>), creates the estimators and
  zeroes the base motion. It assigns neither the frame pointers nor \<^verbatim>\<open>thread_status\<close>:
  they keep whatever the memory held, which is the state the constructor is applied to.
  The encoder buffers are resized without a fill value; the model fills them with zeros,
  and every pass of \<^verbatim>\<open>readAndUpdate\<close> hands them to \<^verbatim>\<open>getEncoders\<close> before it reads them.
\<close>

definition init_upper :: "nat \<Rightarrow> nat \<Rightarrow> nat \<Rightarrow> 'e inverseDynamics \<Rightarrow> 'e inverseDynamics" where
  "init_upper jnt_arm_left jnt_arm_right jnt_head s =
     s\<lparr>encoders_arm_left := replicate jnt_arm_left 0,
       F_LArm := replicate 6 0, F_iDyn_LArm := replicate 6 0, Offset_LArm := replicate 6 0,
       q_larm := replicate 7 0, dq_larm := replicate 7 0, d2q_larm := replicate 7 0,
       encoders_arm_right := replicate jnt_arm_right 0,
       q_rarm := replicate 7 0, dq_rarm := replicate 7 0, d2q_rarm := replicate 7 0,
       F_RArm := replicate 6 0, F_iDyn_RArm := replicate 6 0, Offset_RArm := replicate 6 0,
       encoders_head := replicate jnt_head 0,
       q_head := replicate 3 0, dq_head := replicate 3 0, d2q_head := replicate 3 0,
       all_q_up := replicate (jnt_arm_left + jnt_arm_right + jnt_head) 0,
       all_dq_up := replicate (jnt_arm_left + jnt_arm_right + jnt_head) 0,
       all_d2q_up := replicate (jnt_arm_left + jnt_arm_right + jnt_head) 0\<rparr>"

definition init_lower :: "nat \<Rightarrow> nat \<Rightarrow> nat \<Rightarrow> 'e inverseDynamics \<Rightarrow> 'e inverseDynamics" where
  "init_lower jnt_leg_left jnt_leg_right jnt_torso s =
     s\<lparr>encoders_leg_left := replicate jnt_leg_left 0,
       F_LLeg := replicate 6 0, F_iDyn_LLeg := replicate 6 0, Offset_LLeg := replicate 6 0,
       q_lleg := replicate 7 0, dq_lleg := replicate 7 0, d2q_lleg := replicate 7 0,
       encoders_leg_right := replicate jnt_leg_right 0,
       q_rleg := replicate 7 0, dq_rleg := replicate 7 0, d2q_rleg := replicate 7 0,
       F_RLeg := replicate 6 0, F_iDyn_RLeg := replicate 6 0, Offset_RLeg := replicate 6 0,
       encoders_torso := replicate jnt_torso 0,
       q_torso := replicate 3 0, dq_torso := replicate 3 0, d2q_torso := replicate 3 0,
       all_q_low := replicate (jnt_leg_left + jnt_leg_right + jnt_torso) 0,
       all_dq_low := replicate (jnt_leg_left + jnt_leg_right + jnt_torso) 0,
       all_d2q_low := replicate (jnt_leg_left + jnt_leg_right + jnt_torso) 0\<rparr>"

definition inverseDynamics_new ::
  "'e \<Rightarrow> 'e \<Rightarrow> nat \<Rightarrow> nat \<Rightarrow> nat \<Rightarrow> nat \<Rightarrow> nat \<Rightarrow> nat \<Rightarrow> 'e inverseDynamics \<Rightarrow> 'e inverseDynamics" where
  "inverseDynamics_new lin quad jnt_arm_left jnt_arm_right jnt_head jnt_leg_left jnt_leg_right jnt_torso s =
     (let s1 = s\<lparr>linEstUp := lin, quadEstUp := quad, linEstLow := lin, quadEstLow := quad,
                 InertialEst := lin\<rparr>;
          s2 = init_upper jnt_arm_left jnt_arm_right jnt_head s1;
          s3 = init_lower jnt_leg_left jnt_leg_right jnt_torso s2
      in s3\<lparr>w0 := replicate 3 0, dw0 := replicate 3 0, d2p0 := replicate 3 0,
            F_ext_up := replicate 6 (replicate 3 0), F_ext_low := replicate 6 (replicate 3 0),
            inertial_measurements := replicate 12 0\<rparr>)"

section \<open>The four force/torque sensors\<close>

text \<open>
  The thread treats its four sensors alike. For a sensor \<open>l\<close>: \<open>delivered l inp\<close> is the
  frame its port returns in a pass, \<open>wrench l s\<close> the field \<^verbatim>\<open>F_LArm\<close> ... \<^verbatim>\<open>F_RLeg\<close>,
  \<open>offset l s\<close> the field \<^verbatim>\<open>Offset_LArm\<close> ... \<^verbatim>\<open>Offset_RLeg\<close>, \<open>predicted l s\<close> the field
  \<^verbatim>\<open>F_iDyn_LArm\<close> ... \<^verbatim>\<open>F_iDyn_RLeg\<close>, and \<open>model_wrench l s\<close> the wrench that the last
  \<^verbatim>\<open>update\<close> of the model received for that sensor (the arguments of \<^verbatim>\<open>update\<close> are the
  right wrench, then the left one). \<open>encoders_ok inp s\<close> says that all six encoder reads
  of the pass succeed.
\<close>

datatype ft_sensor = LeftArm | RightArm | LeftLeg | RightLeg

fun delivered :: "ft_sensor \<Rightarrow> cycle_input \<Rightarrow> vec option" where
  "delivered LeftArm inp = port_ft_arm_left inp"
| "delivered RightArm inp = port_ft_arm_right inp"
| "delivered LeftLeg inp = port_ft_leg_left inp"
| "delivered RightLeg inp = port_ft_leg_right inp"

fun wrench :: "ft_sensor \<Rightarrow> 'e inverseDynamics \<Rightarrow> vec" where
  "wrench LeftArm s = F_LArm s"
| "wrench RightArm s = F_RArm s"
| "wrench LeftLeg s = F_LLeg s"
| "wrench RightLeg s = F_RLeg s"

fun offset :: "ft_sensor \<Rightarrow> 'e inverseDynamics \<Rightarrow> vec" where
  "offset LeftArm s = Offset_LArm s"
| "offset RightArm s = Offset_RArm s"
| "offset LeftLeg s = Offset_LLeg s"
| "offset RightLeg s = Offset_RLeg s"

fun model_wrench :: "ft_sensor \<Rightarrow> 'e inverseDynamics \<Rightarrow> vec" where
  "model_wrench LeftArm s = FM_left (upperTorso (icub s))"
| "model_wrench RightArm s = FM_right (upperTorso (icub s))"
| "model_wrench LeftLeg s = FM_left (lowerTorso (icub s))"
| "model_wrench RightLeg s = FM_right (lowerTorso (icub s))"

fun predicted :: "ft_sensor \<Rightarrow> 'e inverseDynamics \<Rightarrow> vec" where
  "predicted LeftArm s = F_iDyn_LArm s"
| "predicted RightArm s = F_iDyn_RArm s"
| "predicted LeftLeg s = F_iDyn_LLeg s"
| "predicted RightLeg s = F_iDyn_RLeg s"


text \<open>
  The calibration loop starts from the state with the four offsets zeroed.
  \<open>trial_state C env s i\<close> is the state at the end of iteration \<open>i\<close> (counted from 0),
  \<open>trial_prediction C env s l i\<close> the wrench \<^verbatim>\<open>F_iDyn\<close> that iteration \<open>i\<close> stored for sensor
  \<open>l\<close>, and \<open>trial_reading C env s i\<close> the state of iteration \<open>i\<close> when its blocking
  \<^verbatim>\<open>readAndUpdate\<close> has returned.
\<close>

definition zero_offsets :: "'e inverseDynamics \<Rightarrow> 'e inverseDynamics" where
  "zero_offsets s =
     s\<lparr>Offset_LArm := zero_vec (Offset_LArm s), Offset_RArm := zero_vec (Offset_RArm s),
       Offset_LLeg := zero_vec (Offset_LLeg s), Offset_RLeg := zero_vec (Offset_RLeg s)\<rparr>"

fun trial_state ::
  "'e collaborators \<Rightarrow> (nat \<Rightarrow> cycle_input) \<Rightarrow> 'e inverseDynamics \<Rightarrow> nat \<Rightarrow> fault + 'e inverseDynamics" where
  "trial_state C env s 0 = calib_trial C (env 0) (zero_offsets s)"
| "trial_state C env s (Suc i) =
     (case trial_state C env s i of Inl e \<Rightarrow> Inl e | Inr t \<Rightarrow> calib_trial C (env (Suc i)) t)"

definition trial_prediction ::
  "'e collaborators \<Rightarrow> (nat \<Rightarrow> cycle_input) \<Rightarrow> 'e inverseDynamics \<Rightarrow> ft_sensor \<Rightarrow> nat \<Rightarrow> vec" where
  "trial_prediction C env s l i = (case trial_state C env s i of Inl e \<Rightarrow> [] | Inr t \<Rightarrow> predicted l t)"

fun trial_start ::
  "'e collaborators \<Rightarrow> (nat \<Rightarrow> cycle_input) \<Rightarrow> 'e inverseDynamics \<Rightarrow> nat \<Rightarrow> 'e inverseDynamics" where
  "trial_start C env s 0 = zero_offsets s"
| "trial_start C env s (Suc i) =
     (case trial_state C env s i of Inl e \<Rightarrow> zero_offsets s | Inr t \<Rightarrow> t)"

definition trial_reading ::
  "'e collaborators \<Rightarrow> (nat \<Rightarrow> cycle_input) \<Rightarrow> 'e inverseDynamics \<Rightarrow> nat \<Rightarrow> 'e inverseDynamics" where
  "trial_reading C env s i = snd (readAndUpdate C True True (env i) (trial_start C env s i))"

text \<open>
  What the kinematic chain model predicts for the sensors in a state \<open>s\<close>: the 6x2 matrix
  of the upper chain, evaluated on the sensor model \<^verbatim>\<open>icub_sens\<close> with the base motion
  \<^verbatim>\<open>w0\<close>, \<^verbatim>\<open>dw0\<close>, \<^verbatim>\<open>d2p0\<close> and the external wrenches \<^verbatim>\<open>F_ext_up\<close>, and the matrix of the
  lower chain, evaluated with the torso motion that the upper chain has just returned and
  \<^verbatim>\<open>F_ext_low\<close>. The arms are the columns of the upper matrix and the legs those of the
  lower one; column 0 is the right limb and column 1 the left one.
\<close>

definition upper_sensor_matrix :: "'e collaborators \<Rightarrow> 'e inverseDynamics \<Rightarrow> matrix \<times> results" where
  "upper_sensor_matrix C s =
     upper_sensors C (setInertialMeasure (w0 s) (dw0 s) (d2p0 s) (upperTorso (icub_sens s)))
       (F_ext_up s)"

definition lower_sensor_matrix :: "'e collaborators \<Rightarrow> 'e inverseDynamics \<Rightarrow> matrix \<times> results" where
  "lower_sensor_matrix C s =
     (let r = snd (upper_sensor_matrix C s)
      in lower_sensors C
           (setInertialMeasure (TorsoAngVel r) (TorsoAngAcc r) (TorsoLinAcc r)
              (lowerTorso (icub_sens s)))
           (F_ext_low s))"

fun model_column :: "'e collaborators \<Rightarrow> 'e inverseDynamics \<Rightarrow> ft_sensor \<Rightarrow> vec" where
  "model_column C s LeftArm = getCol (fst (upper_sensor_matrix C s)) 1"
| "model_column C s RightArm = getCol (fst (upper_sensor_matrix C s)) 0"
| "model_column C s LeftLeg = getCol (fst (lower_sensor_matrix C s)) 1"
| "model_column C s RightLeg = getCol (fst (lower_sensor_matrix C s)) 0"

text \<open>
  The sum of \<open>d 0\<close>, ..., \<open>d (n - 1)\<close> as a loop over \<^verbatim>\<open>double\<close> computes it: from zero, left
  to right, every addition rounded.
\<close>

fun rounded_sum :: "(nat \<Rightarrow> real) \<Rightarrow> nat \<Rightarrow> real" where
  "rounded_sum d 0 = 0"
| "rounded_sum d (Suc n) = rnd64 (rounded_sum d n + d n)"

text \<open>
  \<open>rounded_mean e N\<close> is the mean of \<open>e 0\<close>, ..., \<open>e (N - 1)\<close> as \<^verbatim>\<open>calibrateOffset\<close> computes it
  for one entry of one offset: every term rounded, the terms added from zero, the sum
  multiplied by the rounded quotient \<^verbatim>\<open>1.0/N\<close>, the product rounded. \<open>exact_mean e N\<close> says
  that none of these operations rounds: the quotient, every term, every partial sum and
  the mean are binary64 numbers.
\<close>

definition rounded_mean :: "(nat \<Rightarrow> real) \<Rightarrow> nat \<Rightarrow> real" where
  "rounded_mean e N = rnd64 (rnd64 (1 / real N) * rounded_sum (\<lambda>i. rnd64 (e i)) N)"

definition exact_mean :: "(nat \<Rightarrow> real) \<Rightarrow> nat \<Rightarrow> bool" where
  "exact_mean e N =
     (is_binary64 (1 / real N) \<and> (\<forall>i<N. is_binary64 (e i))
      \<and> (\<forall>j<N. is_binary64 (\<Sum>i\<le>j. e i)) \<and> is_binary64 ((\<Sum>i<N. e i) / real N))"

section \<open>A concrete robot\<close>

text \<open>
  Concrete collaborators and inputs, on which the definitions can be evaluated: a model
  that returns zero torques, zero torso motion and zero sensor wrenches (and a variant,
  \<open>column_model\<close>, whose upper sensor matrix has 1 in column 0 and 2 in column 1 and
  whose lower one has 3 and 4), estimators that report the value 1 for every
  joint, a robot whose boards report 16 axes for each arm, 6 for the head, 7 for each leg
  and 3 for the torso, and the inputs \<open>quiet\<close> (no new frame on any port, all encoders
  read zero), \<open>steady\<close> (the frame 1..6 on every sensor port and a zero inertial frame),
  \<open>head_lost\<close> (the read of the head encoders fails), \<open>posed\<close> (torso encoders 10, 20,
  30 and head encoders 1..6) and \<open>tenths\<close> (on every sensor port the frame whose six
  entries are \<open>tenth\<close>, the binary64 number nearest to 0.1, which is what the literal
  \<^verbatim>\<open>0.1\<close> denotes). \<open>calibrated\<close> is the state after \<^verbatim>\<open>threadInit\<close> when every
  calibration trial receives \<open>steady\<close>, and \<open>calibrated_on_tenths\<close> the state after
  \<^verbatim>\<open>calibrateOffset(10)\<close> when every trial receives \<open>tenths\<close>.
\<close>

definition zero_results :: results where
  "zero_results =
     \<lparr>TorsoAngVel = replicate 3 0, TorsoAngAcc = replicate 3 0, TorsoLinAcc = replicate 3 0,
      Torques = (\<lambda>l. if l = ''head'' \<or> l = ''torso'' then replicate 3 0 else replicate 7 0)\<rparr>"

definition stub :: "unit collaborators" where
  "stub =
     \<lparr>CTRL_DEG2RAD = pi / 180,
      lin_estimate = (\<lambda>e x. (map (\<lambda>_. 1) x, e)),
      quad_estimate = (\<lambda>e x. (map (\<lambda>_. 1) x, e)),
      upper_dynamics = (\<lambda>n. zero_results),
      lower_dynamics = (\<lambda>n. zero_results),
      upper_sensors = (\<lambda>n F. (replicate 6 (replicate 2 0), zero_results)),
      lower_sensors = (\<lambda>n F. (replicate 6 (replicate 2 0), zero_results))\<rparr>"

definition column_model :: "unit collaborators" where
  "column_model =
     stub\<lparr>upper_sensors := (\<lambda>n F. (replicate 6 [1, 2], zero_results)),
          lower_sensors := (\<lambda>n F. (replicate 6 [3, 4], zero_results))\<rparr>"

definition new_node :: node where
  "new_node =
     \<lparr>limbs = (\<lambda>l. \<lparr>Ang = [], DAng = [], D2Ang = []\<rparr>), w_in = [], dw_in = [], d2p_in = [],
      FM_right = [], FM_left = [], FM_up = [], res = zero_results\<rparr>"

definition new_iCubWholeBody :: iCubWholeBody where
  "new_iCubWholeBody = \<lparr>upperTorso = new_node, lowerTorso = new_node\<rparr>"

definition unconstructed :: "unit inverseDynamics" where
  "unconstructed =
     \<lparr>ft_arm_left = None, ft_arm_right = None, inertial = None, ft_leg_left = None,
      ft_leg_right = None, thread_status = STATUS_OK, InertialEst = (), linEstUp = (),
      quadEstUp = (), linEstLow = (), quadEstLow = (), icub = new_iCubWholeBody,
      icub_sens = new_iCubWholeBody, encoders_arm_left = [], encoders_arm_right = [],
      encoders_head = [], encoders_leg_left = [], encoders_leg_right = [],
      encoders_torso = [], q_head = [], dq_head = [], d2q_head = [], q_larm = [],
      dq_larm = [], d2q_larm = [], q_rarm = [], dq_rarm = [], d2q_rarm = [], all_q_up = [],
      all_dq_up = [], all_d2q_up = [], q_torso = [], dq_torso = [], d2q_torso = [],
      q_lleg = [], dq_lleg = [], d2q_lleg = [], q_rleg = [], dq_rleg = [], d2q_rleg = [],
      all_q_low = [], all_dq_low = [], all_d2q_low = [], w0 = [], dw0 = [], d2p0 = [],
      F_LArm = [], F_RArm = [], F_iDyn_LArm = [], F_iDyn_RArm = [], Offset_LArm = [],
      Offset_RArm = [], F_LLeg = [], F_RLeg = [], F_iDyn_LLeg = [], F_iDyn_RLeg = [],
      Offset_LLeg = [], Offset_RLeg = [], F_ext_up = [], F_ext_low = [],
      inertial_measurements = []\<rparr>"

definition constructed :: "unit inverseDynamics" where
  "constructed = inverseDynamics_new () () 16 16 6 7 7 3 unconstructed"

definition still :: "vec \<Rightarrow> bool \<times> vec" where
  "still buf = (True, replicate (length buf) 0)"

definition quiet :: cycle_input where
  "quiet =
     \<lparr>port_ft_arm_left = None, port_ft_arm_right = None, port_ft_leg_left = None,
      port_ft_leg_right = None, port_inertial_thread = None,
      iencs_arm_left = still, iencs_arm_right = still, iencs_head = still,
      iencs_leg_left = still, iencs_leg_right = still, iencs_torso = still\<rparr>"

definition steady :: cycle_input where
  "steady =
     quiet\<lparr>port_ft_arm_left := Some [1, 2, 3, 4, 5, 6], port_ft_arm_right := Some [1, 2, 3, 4, 5, 6],
           port_ft_leg_left := Some [1, 2, 3, 4, 5, 6], port_ft_leg_right := Some [1, 2, 3, 4, 5, 6],
           port_inertial_thread := Some (replicate 12 0)\<rparr>"


definition posed :: cycle_input where
  "posed = quiet\<lparr>iencs_torso := (\<lambda>buf. (True, [10, 20, 30])),
                 iencs_head := (\<lambda>buf. (True, [1, 2, 3, 4, 5, 6]))\<rparr>"

definition steady_trials :: "nat \<Rightarrow> cycle_input" where
  "steady_trials i = steady"

definition calibrated :: "unit inverseDynamics" where
  "calibrated = (case threadInit stub steady_trials constructed of Inr t \<Rightarrow> t | Inl e \<Rightarrow> constructed)"

definition tenth :: real where
  "tenth = 3602879701896397 / 36028797018963968"

definition tenths :: cycle_input where
  "tenths =
     steady\<lparr>port_ft_arm_left := Some (replicate 6 tenth), port_ft_arm_right := Some (replicate 6 tenth),
            port_ft_leg_left := Some (replicate 6 tenth), port_ft_leg_right := Some (replicate 6 tenth)\<rparr>"

definition tenths_trials :: "nat \<Rightarrow> cycle_input" where
  "tenths_trials i = tenths"

definition calibrated_on_tenths :: "unit inverseDynamics" where
  "calibrated_on_tenths =
     (case calibrateOffset stub 10 tenths_trials constructed of Inr t \<Rightarrow> t | Inl e \<Rightarrow> constructed)"

section \<open>Properties of the low-pass filter\<close>

lemma lpf_out: "0 \<le> j \<Longrightarrow> j < 12 \<Longrightarrow>
  fst (lpf_ord1_3hz m x j) = (xv m (Suc 0) (nat j) + x / 18.70043440) + 0.8930506128 * yv m (Suc 0) (nat j)"
  by (simp add: lpf_ord1_3hz_def MAX_JN_def Let_def)

lemma lpf_row1:
  "xv (snd (lpf_ord1_3hz m x j)) (Suc 0) k =
     (if 0 \<le> j \<and> j < 12 \<and> k = nat j then x / 18.70043440 else xv m (Suc 0) k)"
  "yv (snd (lpf_ord1_3hz m x j)) (Suc 0) k =
     (if 0 \<le> j \<and> j < 12 \<and> k = nat j then fst (lpf_ord1_3hz m x j) else yv m (Suc 0) k)"
  by (auto simp add: lpf_ord1_3hz_def MAX_JN_def Let_def)

lemma filter_loop_length: "length (fst (filter_loop m i xs)) = length xs"
  by (induction xs arbitrary: m i) (simp_all add: case_prod_beta Let_def)

lemma filter_loop_nth:
  "k < length xs \<Longrightarrow> i + k < 12 \<Longrightarrow>
   fst (filter_loop m i xs) ! k =
     (xv m (Suc 0) (i + k) + xs ! k / 18.70043440) + 0.8930506128 * yv m (Suc 0) (i + k)"
proof (induction xs arbitrary: m i k)
  case Nil
  then show ?case by simp
next
  case (Cons x xs)
  show ?case
  proof (cases k)
    case 0
    with Cons.prems show ?thesis
      by (simp add: case_prod_beta Let_def lpf_out)
  next
    case (Suc k')
    with Cons.prems have "k' < length xs" "Suc i + k' < 12" by simp_all
    from Cons.IH[OF this, of "snd (lpf_ord1_3hz m x (int i))"] Suc
    show ?thesis
      by (simp add: case_prod_beta Let_def lpf_row1)
  qed
qed

lemma filter_loop_memory:
  "xv (snd (filter_loop m i xs)) (Suc 0) c =
     (if i \<le> c \<and> c < i + length xs \<and> c < 12 then xs ! (c - i) / 18.70043440 else xv m (Suc 0) c)"
  "yv (snd (filter_loop m i xs)) (Suc 0) c =
     (if i \<le> c \<and> c < i + length xs \<and> c < 12 then fst (filter_loop m i xs) ! (c - i) else yv m (Suc 0) c)"
proof (induction xs arbitrary: m i)
  case Nil
  { case 1 show ?case by simp }
  { case 2 show ?case by simp }
next
  case (Cons x xs)
  { case 1 show ?case
      by (auto simp add: case_prod_beta Let_def lpf_row1 Cons.IH(1) Suc_diff_le nat_eq_iff) }
  { case 2 show ?case
      by (auto simp add: case_prod_beta Let_def lpf_row1 Cons.IH(2) Suc_diff_le nat_eq_iff) }
qed

lemma onRead_published:
  assumes "9 \<le> length b" and "k < 6"
  shows "fst (onRead m b) ! k = fst (filter_loop m 0 b) ! (3 + k)"
    and "snd (onRead m b) = snd (filter_loop m 0 b)"
proof -
  from assms(2) have "k = 0 \<or> k = 1 \<or> k = 2 \<or> k = 3 \<or> k = 4 \<or> k = 5" by arith
  then show "fst (onRead m b) ! k = fst (filter_loop m 0 b) ! (3 + k)"
    by (auto simp add: onRead_def case_prod_beta)
  show "snd (onRead m b) = snd (filter_loop m 0 b)"
    by (simp add: onRead_def case_prod_beta)
qed

text \<open>
  Claim C8. For every inbound sample and every channel \<open>j < 12\<close> that the sample has,
  the filtered value of the channel is
  \<open>y[n] = (x[n-1] + x[n]) / 18.70043440 + 0.8930506128 * y[n-1]\<close>, where \<open>x[n-1]\<close> and
  \<open>y[n-1]\<close> are the input and the output of the same channel at the previous sample;
  from zero memory the first sample has \<open>x[-1] = 0\<close> and \<open>y[-1] = 0\<close>. The values of the
  other channels do not occur in it. (\<open>b1\<close> and \<open>b2\<close> are two consecutive inbound samples,
  \<open>filter_loop\<close> is the loop of \<^verbatim>\<open>onRead\<close> over the channels. The code divides each input
  by 18.70043440 before it adds; over the real numbers that is the same value.)
\<close>

theorem lpf_recursion_per_channel:
  assumes "j < 12" and "j < length b1" and "j < length b2"
  shows "fst (filter_loop (snd (filter_loop m0 0 b1)) 0 b2) ! j =
           (b1 ! j + b2 ! j) / 18.70043440 + 0.8930506128 * (fst (filter_loop m0 0 b1) ! j)
         \<and> fst (filter_loop lpf_zero 0 b1) ! j = (0 + b1 ! j) / 18.70043440 + 0.8930506128 * 0"
proof -
  have "fst (filter_loop (snd (filter_loop m0 0 b1)) 0 b2) ! j =
          (xv (snd (filter_loop m0 0 b1)) (Suc 0) j + b2 ! j / 18.70043440)
          + 0.8930506128 * yv (snd (filter_loop m0 0 b1)) (Suc 0) j"
    using filter_loop_nth[of j b2 0] assms by simp
  also have "\<dots> = (b1 ! j + b2 ! j) / 18.70043440 + 0.8930506128 * (fst (filter_loop m0 0 b1) ! j)"
    using assms by (simp add: filter_loop_memory add_divide_distrib)
  finally have A: "fst (filter_loop (snd (filter_loop m0 0 b1)) 0 b2) ! j =
           (b1 ! j + b2 ! j) / 18.70043440 + 0.8930506128 * (fst (filter_loop m0 0 b1) ! j)" .
  have B: "fst (filter_loop lpf_zero 0 b1) ! j = (0 + b1 ! j) / 18.70043440 + 0.8930506128 * 0"
    using filter_loop_nth[of j b1 0 lpf_zero] assms by (simp add: lpf_zero_def)
  from A B show ?thesis by simp
qed

text \<open>Claim C8 at channel 3 of two nine-channel samples.\<close>

theorem lpf_recursion_per_channel_witness:
  "(3::nat) < 12 \<and> 3 < length [1, 2, 3, 4, 5, 6, 7, 8, 9 :: real] \<and> 3 < length [9, 8, 7, 6, 5, 4, 3, 2, 1 :: real]
   \<and> fst (filter_loop (snd (filter_loop lpf_zero 0 [1, 2, 3, 4, 5, 6, 7, 8, 9])) 0 [9, 8, 7, 6, 5, 4, 3, 2, 1]) ! 3
       = (4 + 6) / 18.70043440 + 0.8930506128 * (fst (filter_loop lpf_zero 0 [1, 2, 3, 4, 5, 6, 7, 8, 9]) ! 3)"
  using lpf_recursion_per_channel[of 3 "[1, 2, 3, 4, 5, 6, 7, 8, 9]" "[9, 8, 7, 6, 5, 4, 3, 2, 1]" lpf_zero]
  by simp

lemma unit_step_memory:
  assumes "0 \<le> j" "j < 12"
  shows "xv (unit_step j (Suc n)) (Suc 0) (nat j) = 1 / 18.70043440"
    and "yv (unit_step j (Suc n)) (Suc 0) (nat j) = step_response j n"
  using assms by (simp_all add: lpf_row1 step_response_def)

lemma step_response_0:
  "0 \<le> j \<Longrightarrow> j < 12 \<Longrightarrow> step_response j 0 = 1 / 18.70043440"
  by (simp add: step_response_def lpf_out lpf_zero_def)

lemma step_response_Suc:
  "0 \<le> j \<Longrightarrow> j < 12 \<Longrightarrow>
   step_response j (Suc n) = 2 / 18.70043440 + 0.8930506128 * step_response j n"
  using unit_step_memory[of j n]
  by (simp add: step_response_def[of j "Suc n"] lpf_out del: unit_step.simps)

lemma K_gain_fixpoint: "K_gain = 2 / 18.70043440 + 0.8930506128 * K_gain"
  by (simp add: K_gain_def)

lemma step_response_gap:
  assumes "0 \<le> j" "j < 12"
  shows "K_gain - step_response j n = 0.8930506128 ^ n * (K_gain - 1 / 18.70043440)"
proof (induction n)
  case 0
  show ?case using assms by (simp add: step_response_0)
next
  case (Suc n)
  have "K_gain - step_response j (Suc n) = 0.8930506128 * (K_gain - step_response j n)"
    using K_gain_fixpoint step_response_Suc[OF assms, of n] by (simp add: algebra_simps)
  then show ?case using Suc by simp
qed

lemma K_gain_above_first: "0 < K_gain - 1 / 18.70043440"
  by (simp add: K_gain_def)

text \<open>
  Claim C9. From zero memory, the outputs of a channel for the constant input 1 never
  decrease, stay below \<open>K = 2 / (18.70043440 * (1 - 0.8930506128))\<close> and converge to it.
\<close>

theorem step_response_monotone_bounded:
  assumes "0 \<le> j" and "j < MAX_JN"
  shows "(\<forall>n. step_response j n \<le> step_response j (Suc n))
       \<and> (\<forall>n. step_response j n < K_gain)
       \<and> step_response j \<longlonglongrightarrow> K_gain"
proof -
  from assms have j: "0 \<le> j" "j < 12" by (simp_all add: MAX_JN_def)
  let ?a = "0.8930506128 :: real"
  let ?d = "K_gain - 1 / 18.70043440"
  have gap: "\<And>n. K_gain - step_response j n = ?a ^ n * ?d"
    by (rule step_response_gap[OF j])
  have mono: "step_response j n \<le> step_response j (Suc n)" for n
  proof -
    have "?a ^ Suc n * ?d \<le> ?a ^ n * ?d"
      using K_gain_above_first by (simp add: mult_left_le_one_le)
    then show ?thesis using gap[of n] gap[of "Suc n"] by linarith
  qed
  have below: "step_response j n < K_gain" for n
  proof -
    have "0 < ?a ^ n * ?d" using K_gain_above_first by simp
    then show ?thesis using gap[of n] by linarith
  qed
  have pow: "(\<lambda>n. ?a ^ n) \<longlonglongrightarrow> 0"
    using LIMSEQ_realpow_zero[of ?a] by simp
  have "(\<lambda>n. ?a ^ n * ?d) \<longlonglongrightarrow> 0 * ?d"
    by (rule tendsto_mult[OF pow tendsto_const])
  then have "(\<lambda>n. K_gain - ?a ^ n * ?d) \<longlonglongrightarrow> K_gain - 0 * ?d"
    by (rule tendsto_diff[OF tendsto_const])
  moreover have "(\<lambda>n. K_gain - ?a ^ n * ?d) = step_response j"
    using gap by (auto simp: fun_eq_iff algebra_simps)
  ultimately have lim: "step_response j \<longlonglongrightarrow> K_gain" by simp
  from mono below lim show ?thesis by blast
qed

text \<open>Claim C9 for channel 3.\<close>

theorem step_response_monotone_bounded_witness:
  "(0::int) \<le> 3 \<and> 3 < MAX_JN
   \<and> (\<forall>n. step_response 3 n \<le> step_response 3 (Suc n))
   \<and> (\<forall>n. step_response 3 n < K_gain)
   \<and> step_response 3 \<longlonglongrightarrow> K_gain"
  using step_response_monotone_bounded[of 3] by (simp add: MAX_JN_def)

section \<open>What each operation leaves unchanged\<close>

lemma copy_loop_length_aux:
  "length (fst (fold (\<lambda>i (q, all_q). let q1 = q[i := enc ! src i] in (q1, all_q[off + i := q1 ! i])) xs (q, a))) = length q
   \<and> length (snd (fold (\<lambda>i (q, all_q). let q1 = q[i := enc ! src i] in (q1, all_q[off + i := q1 ! i])) xs (q, a))) = length a"
  by (induction xs arbitrary: q a) (simp_all add: Let_def)

lemma copy_loop_length [simp]:
  "length (fst (copy_loop src off enc q a)) = length q"
  "length (snd (copy_loop src off enc q a)) = length a"
  using copy_loop_length_aux[of enc src off "[0..<length q]" q a] by (simp_all add: copy_loop_def)

lemma slice_loop_length_aux:
  "length (fst (fold (\<lambda>i (dq, d2q). (dq[i := v ! (i + off)], d2q[i := a ! (i + off)])) xs (dq, d2q))) = length dq
   \<and> length (snd (fold (\<lambda>i (dq, d2q). (dq[i := v ! (i + off)], d2q[i := a ! (i + off)])) xs (dq, d2q))) = length d2q"
  by (induction xs arbitrary: dq d2q) simp_all

lemma slice_loop_length [simp]:
  "length (fst (slice_loop off n v a dq d2q)) = length dq"
  "length (snd (slice_loop off n v a dq d2q)) = length d2q"
  using slice_loop_length_aux[of v off a "[0..<n]" dq d2q] by (simp_all add: slice_loop_def)

lemma getUpper_frame [simp]:
  "thread_status (snd (getUpperEncodersSpeedAndAcceleration C inp s)) = thread_status s"
  "F_LArm (snd (getUpperEncodersSpeedAndAcceleration C inp s)) = F_LArm s"
  "F_RArm (snd (getUpperEncodersSpeedAndAcceleration C inp s)) = F_RArm s"
  "F_LLeg (snd (getUpperEncodersSpeedAndAcceleration C inp s)) = F_LLeg s"
  "F_RLeg (snd (getUpperEncodersSpeedAndAcceleration C inp s)) = F_RLeg s"
  "Offset_LArm (snd (getUpperEncodersSpeedAndAcceleration C inp s)) = Offset_LArm s"
  "Offset_RArm (snd (getUpperEncodersSpeedAndAcceleration C inp s)) = Offset_RArm s"
  "Offset_LLeg (snd (getUpperEncodersSpeedAndAcceleration C inp s)) = Offset_LLeg s"
  "Offset_RLeg (snd (getUpperEncodersSpeedAndAcceleration C inp s)) = Offset_RLeg s"
  "F_ext_up (snd (getUpperEncodersSpeedAndAcceleration C inp s)) = F_ext_up s"
  "F_ext_low (snd (getUpperEncodersSpeedAndAcceleration C inp s)) = F_ext_low s"
  "ft_arm_left (snd (getUpperEncodersSpeedAndAcceleration C inp s)) = ft_arm_left s"
  "ft_arm_right (snd (getUpperEncodersSpeedAndAcceleration C inp s)) = ft_arm_right s"
  "ft_leg_left (snd (getUpperEncodersSpeedAndAcceleration C inp s)) = ft_leg_left s"
  "ft_leg_right (snd (getUpperEncodersSpeedAndAcceleration C inp s)) = ft_leg_right s"
  "icub (snd (getUpperEncodersSpeedAndAcceleration C inp s)) = icub s"
  "icub_sens (snd (getUpperEncodersSpeedAndAcceleration C inp s)) = icub_sens s"
  "encoders_leg_left (snd (getUpperEncodersSpeedAndAcceleration C inp s)) = encoders_leg_left s"
  "encoders_leg_right (snd (getUpperEncodersSpeedAndAcceleration C inp s)) = encoders_leg_right s"
  "encoders_torso (snd (getUpperEncodersSpeedAndAcceleration C inp s)) = encoders_torso s"
  "dq_torso (snd (getUpperEncodersSpeedAndAcceleration C inp s)) = dq_torso s"
  "d2q_torso (snd (getUpperEncodersSpeedAndAcceleration C inp s)) = d2q_torso s"
  "dq_lleg (snd (getUpperEncodersSpeedAndAcceleration C inp s)) = dq_lleg s"
  "d2q_lleg (snd (getUpperEncodersSpeedAndAcceleration C inp s)) = d2q_lleg s"
  "dq_rleg (snd (getUpperEncodersSpeedAndAcceleration C inp s)) = dq_rleg s"
  "d2q_rleg (snd (getUpperEncodersSpeedAndAcceleration C inp s)) = d2q_rleg s"
  "length (dq_head (snd (getUpperEncodersSpeedAndAcceleration C inp s))) = length (dq_head s)"
  "length (d2q_head (snd (getUpperEncodersSpeedAndAcceleration C inp s))) = length (d2q_head s)"
  "length (dq_larm (snd (getUpperEncodersSpeedAndAcceleration C inp s))) = length (dq_larm s)"
  "length (d2q_larm (snd (getUpperEncodersSpeedAndAcceleration C inp s))) = length (d2q_larm s)"
  "length (dq_rarm (snd (getUpperEncodersSpeedAndAcceleration C inp s))) = length (dq_rarm s)"
  "length (d2q_rarm (snd (getUpperEncodersSpeedAndAcceleration C inp s))) = length (d2q_rarm s)"
  "length (all_q_up (snd (getUpperEncodersSpeedAndAcceleration C inp s))) = length (all_q_up s)"
  by (simp_all add: getUpperEncodersSpeedAndAcceleration_def case_prod_beta Let_def)

lemma getLower_frame [simp]:
  "thread_status (snd (getLowerEncodersSpeedAndAcceleration C inp s)) = thread_status s"
  "F_LArm (snd (getLowerEncodersSpeedAndAcceleration C inp s)) = F_LArm s"
  "F_RArm (snd (getLowerEncodersSpeedAndAcceleration C inp s)) = F_RArm s"
  "F_LLeg (snd (getLowerEncodersSpeedAndAcceleration C inp s)) = F_LLeg s"
  "F_RLeg (snd (getLowerEncodersSpeedAndAcceleration C inp s)) = F_RLeg s"
  "Offset_LArm (snd (getLowerEncodersSpeedAndAcceleration C inp s)) = Offset_LArm s"
  "Offset_RArm (snd (getLowerEncodersSpeedAndAcceleration C inp s)) = Offset_RArm s"
  "Offset_LLeg (snd (getLowerEncodersSpeedAndAcceleration C inp s)) = Offset_LLeg s"
  "Offset_RLeg (snd (getLowerEncodersSpeedAndAcceleration C inp s)) = Offset_RLeg s"
  "F_ext_up (snd (getLowerEncodersSpeedAndAcceleration C inp s)) = F_ext_up s"
  "F_ext_low (snd (getLowerEncodersSpeedAndAcceleration C inp s)) = F_ext_low s"
  "ft_arm_left (snd (getLowerEncodersSpeedAndAcceleration C inp s)) = ft_arm_left s"
  "ft_arm_right (snd (getLowerEncodersSpeedAndAcceleration C inp s)) = ft_arm_right s"
  "ft_leg_left (snd (getLowerEncodersSpeedAndAcceleration C inp s)) = ft_leg_left s"
  "ft_leg_right (snd (getLowerEncodersSpeedAndAcceleration C inp s)) = ft_leg_right s"
  "icub (snd (getLowerEncodersSpeedAndAcceleration C inp s)) = icub s"
  "icub_sens (snd (getLowerEncodersSpeedAndAcceleration C inp s)) = icub_sens s"
  "all_q_up (snd (getLowerEncodersSpeedAndAcceleration C inp s)) = all_q_up s"
  "all_dq_up (snd (getLowerEncodersSpeedAndAcceleration C inp s)) = all_dq_up s"
  "dq_head (snd (getLowerEncodersSpeedAndAcceleration C inp s)) = dq_head s"
  "d2q_head (snd (getLowerEncodersSpeedAndAcceleration C inp s)) = d2q_head s"
  "dq_larm (snd (getLowerEncodersSpeedAndAcceleration C inp s)) = dq_larm s"
  "d2q_larm (snd (getLowerEncodersSpeedAndAcceleration C inp s)) = d2q_larm s"
  "dq_rarm (snd (getLowerEncodersSpeedAndAcceleration C inp s)) = dq_rarm s"
  "d2q_rarm (snd (getLowerEncodersSpeedAndAcceleration C inp s)) = d2q_rarm s"
  "length (dq_torso (snd (getLowerEncodersSpeedAndAcceleration C inp s))) = length (dq_torso s)"
  "length (d2q_torso (snd (getLowerEncodersSpeedAndAcceleration C inp s))) = length (d2q_torso s)"
  "length (dq_lleg (snd (getLowerEncodersSpeedAndAcceleration C inp s))) = length (dq_lleg s)"
  "length (d2q_lleg (snd (getLowerEncodersSpeedAndAcceleration C inp s))) = length (d2q_lleg s)"
  "length (dq_rleg (snd (getLowerEncodersSpeedAndAcceleration C inp s))) = length (dq_rleg s)"
  "length (d2q_rleg (snd (getLowerEncodersSpeedAndAcceleration C inp s))) = length (d2q_rleg s)"
  by (simp_all add: getLowerEncodersSpeedAndAcceleration_def case_prod_beta Let_def)

lemma setUpperMeasure_frame [simp]:
  "thread_status (setUpperMeasure C init s) = thread_status s"
  "F_LArm (setUpperMeasure C init s) = F_LArm s"
  "F_RArm (setUpperMeasure C init s) = F_RArm s"
  "F_LLeg (setUpperMeasure C init s) = F_LLeg s"
  "F_RLeg (setUpperMeasure C init s) = F_RLeg s"
  "Offset_LArm (setUpperMeasure C init s) = Offset_LArm s"
  "Offset_RArm (setUpperMeasure C init s) = Offset_RArm s"
  "Offset_LLeg (setUpperMeasure C init s) = Offset_LLeg s"
  "Offset_RLeg (setUpperMeasure C init s) = Offset_RLeg s"
  "F_ext_up (setUpperMeasure C init s) = F_ext_up s"
  "F_ext_low (setUpperMeasure C init s) = F_ext_low s"
  "ft_arm_left (setUpperMeasure C init s) = ft_arm_left s"
  "ft_arm_right (setUpperMeasure C init s) = ft_arm_right s"
  "ft_leg_left (setUpperMeasure C init s) = ft_leg_left s"
  "ft_leg_right (setUpperMeasure C init s) = ft_leg_right s"
  "encoders_leg_left (setUpperMeasure C init s) = encoders_leg_left s"
  "encoders_leg_right (setUpperMeasure C init s) = encoders_leg_right s"
  "encoders_torso (setUpperMeasure C init s) = encoders_torso s"
  "all_q_up (setUpperMeasure C init s) = all_q_up s"
  "all_dq_up (setUpperMeasure C init s) = all_dq_up s"
  "w0 (setUpperMeasure C init s) = w0 s"
  "dw0 (setUpperMeasure C init s) = dw0 s"
  "d2p0 (setUpperMeasure C init s) = d2p0 s"
  "dq_head (setUpperMeasure C init s) = dq_head s"
  "d2q_head (setUpperMeasure C init s) = d2q_head s"
  "dq_larm (setUpperMeasure C init s) = dq_larm s"
  "d2q_larm (setUpperMeasure C init s) = d2q_larm s"
  "dq_rarm (setUpperMeasure C init s) = dq_rarm s"
  "d2q_rarm (setUpperMeasure C init s) = d2q_rarm s"
  "dq_torso (setUpperMeasure C init s) = dq_torso s"
  "d2q_torso (setUpperMeasure C init s) = d2q_torso s"
  "dq_lleg (setUpperMeasure C init s) = dq_lleg s"
  "d2q_lleg (setUpperMeasure C init s) = d2q_lleg s"
  "dq_rleg (setUpperMeasure C init s) = dq_rleg s"
  "d2q_rleg (setUpperMeasure C init s) = d2q_rleg s"
  by (simp_all add: setUpperMeasure_def)

lemma setLowerMeasure_frame [simp]:
  "thread_status (setLowerMeasure C init s) = thread_status s"
  "F_LArm (setLowerMeasure C init s) = F_LArm s"
  "F_RArm (setLowerMeasure C init s) = F_RArm s"
  "F_LLeg (setLowerMeasure C init s) = F_LLeg s"
  "F_RLeg (setLowerMeasure C init s) = F_RLeg s"
  "Offset_LArm (setLowerMeasure C init s) = Offset_LArm s"
  "Offset_RArm (setLowerMeasure C init s) = Offset_RArm s"
  "Offset_LLeg (setLowerMeasure C init s) = Offset_LLeg s"
  "Offset_RLeg (setLowerMeasure C init s) = Offset_RLeg s"
  "F_ext_up (setLowerMeasure C init s) = F_ext_up s"
  "F_ext_low (setLowerMeasure C init s) = F_ext_low s"
  "ft_arm_left (setLowerMeasure C init s) = ft_arm_left s"
  "ft_arm_right (setLowerMeasure C init s) = ft_arm_right s"
  "ft_leg_left (setLowerMeasure C init s) = ft_leg_left s"
  "ft_leg_right (setLowerMeasure C init s) = ft_leg_right s"
  "encoders_leg_left (setLowerMeasure C init s) = encoders_leg_left s"
  "encoders_leg_right (setLowerMeasure C init s) = encoders_leg_right s"
  "encoders_torso (setLowerMeasure C init s) = encoders_torso s"
  "all_q_up (setLowerMeasure C init s) = all_q_up s"
  "all_dq_up (setLowerMeasure C init s) = all_dq_up s"
  "w0 (setLowerMeasure C init s) = w0 s"
  "dw0 (setLowerMeasure C init s) = dw0 s"
  "d2p0 (setLowerMeasure C init s) = d2p0 s"
  "dq_head (setLowerMeasure C init s) = dq_head s"
  "d2q_head (setLowerMeasure C init s) = d2q_head s"
  "dq_larm (setLowerMeasure C init s) = dq_larm s"
  "d2q_larm (setLowerMeasure C init s) = d2q_larm s"
  "dq_rarm (setLowerMeasure C init s) = dq_rarm s"
  "d2q_rarm (setLowerMeasure C init s) = d2q_rarm s"
  "dq_torso (setLowerMeasure C init s) = dq_torso s"
  "d2q_torso (setLowerMeasure C init s) = d2q_torso s"
  "dq_lleg (setLowerMeasure C init s) = dq_lleg s"
  "d2q_lleg (setLowerMeasure C init s) = d2q_lleg s"
  "dq_rleg (setLowerMeasure C init s) = dq_rleg s"
  "d2q_rleg (setLowerMeasure C init s) = d2q_rleg s"
  by (simp_all add: setLowerMeasure_def)

lemma setZeroJntAngVelAcc_frame [simp]:
  "thread_status (setZeroJntAngVelAcc s) = thread_status s"
  "F_LArm (setZeroJntAngVelAcc s) = F_LArm s"
  "F_RArm (setZeroJntAngVelAcc s) = F_RArm s"
  "F_LLeg (setZeroJntAngVelAcc s) = F_LLeg s"
  "F_RLeg (setZeroJntAngVelAcc s) = F_RLeg s"
  "Offset_LArm (setZeroJntAngVelAcc s) = Offset_LArm s"
  "Offset_RArm (setZeroJntAngVelAcc s) = Offset_RArm s"
  "Offset_LLeg (setZeroJntAngVelAcc s) = Offset_LLeg s"
  "Offset_RLeg (setZeroJntAngVelAcc s) = Offset_RLeg s"
  "F_ext_up (setZeroJntAngVelAcc s) = F_ext_up s"
  "F_ext_low (setZeroJntAngVelAcc s) = F_ext_low s"
  "ft_arm_left (setZeroJntAngVelAcc s) = ft_arm_left s"
  "ft_arm_right (setZeroJntAngVelAcc s) = ft_arm_right s"
  "ft_leg_left (setZeroJntAngVelAcc s) = ft_leg_left s"
  "ft_leg_right (setZeroJntAngVelAcc s) = ft_leg_right s"
  "icub (setZeroJntAngVelAcc s) = icub s"
  "w0 (setZeroJntAngVelAcc s) = w0 s"
  "dw0 (setZeroJntAngVelAcc s) = dw0 s"
  "d2p0 (setZeroJntAngVelAcc s) = d2p0 s"
  "all_dq_up (setZeroJntAngVelAcc s) = all_dq_up s"
  by (simp_all add: setZeroJntAngVelAcc_def)

lemma readAndUpdate_frame [simp]:
  "thread_status (snd (readAndUpdate C waitMeasure init inp s)) = thread_status s"
  "F_LArm (snd (readAndUpdate C waitMeasure init inp s)) = F_LArm s"
  "F_RArm (snd (readAndUpdate C waitMeasure init inp s)) = F_RArm s"
  "F_LLeg (snd (readAndUpdate C waitMeasure init inp s)) = F_LLeg s"
  "F_RLeg (snd (readAndUpdate C waitMeasure init inp s)) = F_RLeg s"
  "Offset_LArm (snd (readAndUpdate C waitMeasure init inp s)) = Offset_LArm s"
  "Offset_RArm (snd (readAndUpdate C waitMeasure init inp s)) = Offset_RArm s"
  "Offset_LLeg (snd (readAndUpdate C waitMeasure init inp s)) = Offset_LLeg s"
  "Offset_RLeg (snd (readAndUpdate C waitMeasure init inp s)) = Offset_RLeg s"
  "F_ext_up (snd (readAndUpdate C waitMeasure init inp s)) = F_ext_up s"
  "F_ext_low (snd (readAndUpdate C waitMeasure init inp s)) = F_ext_low s"
  "length (dq_head (snd (readAndUpdate C waitMeasure init inp s))) = length (dq_head s)"
  "length (d2q_head (snd (readAndUpdate C waitMeasure init inp s))) = length (d2q_head s)"
  "length (dq_larm (snd (readAndUpdate C waitMeasure init inp s))) = length (dq_larm s)"
  "length (d2q_larm (snd (readAndUpdate C waitMeasure init inp s))) = length (d2q_larm s)"
  "length (dq_rarm (snd (readAndUpdate C waitMeasure init inp s))) = length (dq_rarm s)"
  "length (d2q_rarm (snd (readAndUpdate C waitMeasure init inp s))) = length (d2q_rarm s)"
  "length (dq_torso (snd (readAndUpdate C waitMeasure init inp s))) = length (dq_torso s)"
  "length (d2q_torso (snd (readAndUpdate C waitMeasure init inp s))) = length (d2q_torso s)"
  "length (dq_lleg (snd (readAndUpdate C waitMeasure init inp s))) = length (dq_lleg s)"
  "length (d2q_lleg (snd (readAndUpdate C waitMeasure init inp s))) = length (d2q_lleg s)"
  "length (dq_rleg (snd (readAndUpdate C waitMeasure init inp s))) = length (dq_rleg s)"
  "length (d2q_rleg (snd (readAndUpdate C waitMeasure init inp s))) = length (d2q_rleg s)"
  "length (all_q_up (snd (readAndUpdate C waitMeasure init inp s))) = length (all_q_up s)"
  by (simp_all add: readAndUpdate_def case_prod_beta Let_def split: option.split)




lemma readAndUpdate_ports [simp]:
  "ft_arm_left (snd (readAndUpdate C waitMeasure init inp s)) = port_ft_arm_left inp"
  "ft_arm_right (snd (readAndUpdate C waitMeasure init inp s)) = port_ft_arm_right inp"
  "ft_leg_left (snd (readAndUpdate C waitMeasure init inp s)) = port_ft_leg_left inp"
  "ft_leg_right (snd (readAndUpdate C waitMeasure init inp s)) = port_ft_leg_right inp"
  by (simp_all add: readAndUpdate_def case_prod_beta Let_def split: option.split)

lemma readAndUpdate_model [simp]:
  "icub_sens (snd (readAndUpdate C waitMeasure False inp s)) = icub_sens s"
  "icub (snd (readAndUpdate C waitMeasure True inp s)) = icub s"
  by (simp_all add: readAndUpdate_def case_prod_beta Let_def setUpperMeasure_def setLowerMeasure_def
      split: option.split)

lemma update_fields [simp]:
  "limbs (update dyn w dw d2p FR FL Fup n) = limbs n"
  "w_in (update dyn w dw d2p FR FL Fup n) = w"
  "dw_in (update dyn w dw d2p FR FL Fup n) = dw"
  "d2p_in (update dyn w dw d2p FR FL Fup n) = d2p"
  "FM_right (update dyn w dw d2p FR FL Fup n) = FR"
  "FM_left (update dyn w dw d2p FR FL Fup n) = FL"
  "FM_up (update dyn w dw d2p FR FL Fup n) = Fup"
  by (simp_all add: update_def setInertialMeasure_def Let_def)

lemma update_res:
  "res (update dyn w dw d2p FR FL Fup n) =
     dyn (n\<lparr>w_in := w, dw_in := dw, d2p_in := d2p, FM_right := FR, FM_left := FL, FM_up := Fup\<rparr>)"
  by (simp add: update_def setInertialMeasure_def Let_def)

lemma estimateSensorsWrench_fst [simp]:
  "fst (estimateSensorsWrench sens F n) = fst (sens n F)"
  by (simp add: estimateSensorsWrench_def case_prod_beta)

lemma getCol_length [simp]: "length (getCol M c) = length M"
  by (simp add: getCol_def)

lemma smul_length [simp]: "length (smul k v) = length v"
  by (simp add: smul_def)

lemma vsub_length [simp]: "length (vsub a b) = min (length a) (length b)"
  by (simp add: vsub_def)

lemma vadd_length [simp]: "length (vadd a b) = min (length a) (length b)"
  by (simp add: vadd_def)

lemma vec_nth [simp]:
  "k < length v \<Longrightarrow> smul c v ! k = c * v ! k"
  "k < length a \<Longrightarrow> k < length b \<Longrightarrow> vsub a b ! k = a ! k - b ! k"
  "k < length a \<Longrightarrow> k < length b \<Longrightarrow> vadd a b ! k = a ! k + b ! k"
  by (simp_all add: smul_def vsub_def vadd_def)

lemma smul_zero_vec [simp]: "smul k (zero_vec v) = replicate (length v) 0"
  by (simp add: smul_def zero_vec_def)

lemma upper_measure_limbs:
  "DAng (limbs (upper_measure k s n) ''head'') = smul k (dq_head s)"
  "D2Ang (limbs (upper_measure k s n) ''head'') = smul k (d2q_head s)"
  "DAng (limbs (upper_measure k s n) ''left_arm'') = smul k (dq_larm s)"
  "D2Ang (limbs (upper_measure k s n) ''left_arm'') = smul k (d2q_larm s)"
  "DAng (limbs (upper_measure k s n) ''right_arm'') = smul k (dq_rarm s)"
  "D2Ang (limbs (upper_measure k s n) ''right_arm'') = smul k (d2q_rarm s)"
  by (simp_all add: upper_measure_def setAng_def setDAng_def setD2Ang_def setInertialMeasure_def Let_def)

lemma lower_measure_limbs:
  "DAng (limbs (lower_measure k s n) ''torso'') = smul k (dq_torso s)"
  "D2Ang (limbs (lower_measure k s n) ''torso'') = smul k (d2q_torso s)"
  "DAng (limbs (lower_measure k s n) ''left_leg'') = smul k (dq_lleg s)"
  "D2Ang (limbs (lower_measure k s n) ''left_leg'') = smul k (d2q_lleg s)"
  "DAng (limbs (lower_measure k s n) ''right_leg'') = smul k (dq_rleg s)"
  "D2Ang (limbs (lower_measure k s n) ''right_leg'') = smul k (d2q_rleg s)"
  by (simp_all add: lower_measure_def setAng_def setDAng_def setD2Ang_def Let_def)

lemma setZero_fields [simp]:
  "dq_head (setZeroJntAngVelAcc s) = zero_vec (dq_head s)"
  "d2q_head (setZeroJntAngVelAcc s) = zero_vec (d2q_head s)"
  "dq_larm (setZeroJntAngVelAcc s) = zero_vec (dq_larm s)"
  "d2q_larm (setZeroJntAngVelAcc s) = zero_vec (d2q_larm s)"
  "dq_rarm (setZeroJntAngVelAcc s) = zero_vec (dq_rarm s)"
  "d2q_rarm (setZeroJntAngVelAcc s) = zero_vec (d2q_rarm s)"
  "dq_torso (setZeroJntAngVelAcc s) = zero_vec (dq_torso s)"
  "d2q_torso (setZeroJntAngVelAcc s) = zero_vec (d2q_torso s)"
  "dq_lleg (setZeroJntAngVelAcc s) = zero_vec (dq_lleg s)"
  "d2q_lleg (setZeroJntAngVelAcc s) = zero_vec (d2q_lleg s)"
  "dq_rleg (setZeroJntAngVelAcc s) = zero_vec (dq_rleg s)"
  "d2q_rleg (setZeroJntAngVelAcc s) = zero_vec (d2q_rleg s)"
  by (simp_all add: setZeroJntAngVelAcc_def)

section \<open>The cycle\<close>

lemma case_frame_upd:
  "(case x of None \<Rightarrow> s | Some f \<Rightarrow> s\<lparr>F_LArm := g f\<rparr>) =
     s\<lparr>F_LArm := (case x of None \<Rightarrow> F_LArm s | Some f \<Rightarrow> g f)\<rparr>"
  "(case x of None \<Rightarrow> s | Some f \<Rightarrow> s\<lparr>F_RArm := g f\<rparr>) =
     s\<lparr>F_RArm := (case x of None \<Rightarrow> F_RArm s | Some f \<Rightarrow> g f)\<rparr>"
  "(case x of None \<Rightarrow> s | Some f \<Rightarrow> s\<lparr>F_LLeg := g f\<rparr>) =
     s\<lparr>F_LLeg := (case x of None \<Rightarrow> F_LLeg s | Some f \<Rightarrow> g f)\<rparr>"
  "(case x of None \<Rightarrow> s | Some f \<Rightarrow> s\<lparr>F_RLeg := g f\<rparr>) =
     s\<lparr>F_RLeg := (case x of None \<Rightarrow> F_RLeg s | Some f \<Rightarrow> g f)\<rparr>"
  by (cases x; simp)+

lemma if_status_upd:
  "(if \<not> b then s\<lparr>thread_status := t\<rparr> else s) =
     s\<lparr>thread_status := (if b then thread_status s else t)\<rparr>"
  by simp

lemma setMeasure_False:
  "setUpperMeasure C False s =
     s\<lparr>icub := (icub s)\<lparr>upperTorso := upper_measure (CTRL_DEG2RAD C) s (upperTorso (icub s))\<rparr>\<rparr>"
  "setLowerMeasure C False s =
     s\<lparr>icub := (icub s)\<lparr>lowerTorso := lower_measure (CTRL_DEG2RAD C) s (lowerTorso (icub s))\<rparr>\<rparr>"
  by (simp_all add: setUpperMeasure_def setLowerMeasure_def)

lemma measure_status [simp]:
  "upper_measure k (setZeroJntAngVelAcc (s\<lparr>thread_status := t\<rparr>)) n = upper_measure k (setZeroJntAngVelAcc s) n"
  "lower_measure k (setZeroJntAngVelAcc (s\<lparr>thread_status := t\<rparr>)) n = lower_measure k (setZeroJntAngVelAcc s) n"
  by (simp_all add: upper_measure_def lower_measure_def setZeroJntAngVelAcc_def)

lemma measure_icub [simp]:
  "upper_measure k (s\<lparr>icub := x\<rparr>) n = upper_measure k s n"
  "lower_measure k (s\<lparr>icub := x\<rparr>) n = lower_measure k s n"
  by (simp_all add: upper_measure_def lower_measure_def)

lemmas run_simps = run_def Let_def case_prod_beta case_frame_upd if_status_upd

lemma run_published:
  "snd (run C inp s) =
     [writeTorque (getTorques (lowerTorso (icub (fst (run C inp s)))) ''right_leg'') 2 port_RLTorques,
      writeTorque (getTorques (lowerTorso (icub (fst (run C inp s)))) ''left_leg'') 2 port_LLTorques,
      writeTorque (getTorques (upperTorso (icub (fst (run C inp s)))) ''right_arm'') 1 port_RATorques,
      writeTorque (getTorques (upperTorso (icub (fst (run C inp s)))) ''left_arm'') 1 port_LATorques]"
  by (simp add: run_simps cong: option.case_cong if_cong)


lemma run_wrenches:
  "F_LArm (fst (run C inp s)) =
     (case port_ft_arm_left inp of None \<Rightarrow> F_LArm s | Some f \<Rightarrow> smul (- 1) (vsub f (Offset_LArm s)))"
  "F_RArm (fst (run C inp s)) =
     (case port_ft_arm_right inp of None \<Rightarrow> F_RArm s | Some f \<Rightarrow> smul (- 1) (vsub f (Offset_RArm s)))"
  "F_LLeg (fst (run C inp s)) =
     (case port_ft_leg_left inp of None \<Rightarrow> F_LLeg s | Some f \<Rightarrow> smul (- 1) (vsub f (Offset_LLeg s)))"
  "F_RLeg (fst (run C inp s)) =
     (case port_ft_leg_right inp of None \<Rightarrow> F_RLeg s | Some f \<Rightarrow> smul (- 1) (vsub f (Offset_RLeg s)))"
  by (simp_all add: run_simps cong: option.case_cong if_cong)

lemma run_offsets [simp]:
  "Offset_LArm (fst (run C inp s)) = Offset_LArm s"
  "Offset_RArm (fst (run C inp s)) = Offset_RArm s"
  "Offset_LLeg (fst (run C inp s)) = Offset_LLeg s"
  "Offset_RLeg (fst (run C inp s)) = Offset_RLeg s"
  by (simp_all add: run_simps cong: option.case_cong if_cong)

lemma run_base_motion:
  "w0 (fst (run C inp s)) = w0 (snd (readAndUpdate C False False inp (s\<lparr>thread_status := STATUS_OK\<rparr>)))"
  "dw0 (fst (run C inp s)) = dw0 (snd (readAndUpdate C False False inp (s\<lparr>thread_status := STATUS_OK\<rparr>)))"
  "d2p0 (fst (run C inp s)) = d2p0 (snd (readAndUpdate C False False inp (s\<lparr>thread_status := STATUS_OK\<rparr>)))"
  "all_dq_up (fst (run C inp s)) = all_dq_up (snd (readAndUpdate C False False inp (s\<lparr>thread_status := STATUS_OK\<rparr>)))"
  by (simp_all add: run_simps cong: option.case_cong if_cong)

lemma run_upper:
  "upperTorso (icub (fst (run C inp s))) =
     update (upper_dynamics C) (w0 (fst (run C inp s))) (dw0 (fst (run C inp s))) (d2p0 (fst (run C inp s)))
       (F_RArm (fst (run C inp s))) (F_LArm (fst (run C inp s))) (replicate 6 0)
       (upper_measure (CTRL_DEG2RAD C)
          (setZeroJntAngVelAcc (snd (readAndUpdate C False False inp (s\<lparr>thread_status := STATUS_OK\<rparr>))))
          (upperTorso (icub (snd (readAndUpdate C False False inp (s\<lparr>thread_status := STATUS_OK\<rparr>))))))"
  unfolding run_wrenches run_base_motion
  by (simp add: run_simps setMeasure_False cong: option.case_cong if_cong)

lemma run_lower:
  "lowerTorso (icub (fst (run C inp s))) =
     update (lower_dynamics C) (getTorsoAngVel (upperTorso (icub (fst (run C inp s)))))
       (getTorsoAngAcc (upperTorso (icub (fst (run C inp s)))))
       (getTorsoLinAcc (upperTorso (icub (fst (run C inp s)))))
       (F_RLeg (fst (run C inp s))) (F_LLeg (fst (run C inp s))) (replicate 6 0)
       (lower_measure (CTRL_DEG2RAD C)
          (setZeroJntAngVelAcc (snd (readAndUpdate C False False inp (s\<lparr>thread_status := STATUS_OK\<rparr>))))
          (lowerTorso (icub (snd (readAndUpdate C False False inp (s\<lparr>thread_status := STATUS_OK\<rparr>))))))"
  unfolding run_wrenches run_upper run_base_motion
  by (simp add: run_simps setMeasure_False cong: option.case_cong if_cong)

lemma run_wrench:
  "wrench l (fst (run C inp s)) =
     (case delivered l inp of None \<Rightarrow> wrench l s | Some f \<Rightarrow> smul (- 1) (vsub f (offset l s)))"
  by (cases l) (simp_all add: run_wrenches cong: option.case_cong)

lemma run_offset: "offset l (fst (run C inp s)) = offset l s"
  by (cases l) simp_all

lemma run_model_wrench: "model_wrench l (fst (run C inp s)) = wrench l (fst (run C inp s))"
  by (cases l) (simp_all add: run_upper run_lower)

lemma run_published_length: "length (snd (run C inp s)) = 4"
  by (simp add: run_published)

lemma run_cycles_offset: "offset l (run_cycles C inps s) = offset l s"
  by (induction inps arbitrary: s) (simp_all add: run_offset)

lemma run_cycles_no_frame:
  "\<forall>i \<in> set inps. delivered l i = None \<Longrightarrow> wrench l (run_cycles C inps s) = wrench l s"
  by (induction inps arbitrary: s) (simp_all add: run_wrench)

lemma run_cycles_snoc:
  "run_cycles C (inps @ [inp]) s = fst (run C inp (run_cycles C inps s))"
  by (induction inps arbitrary: s) simp_all

lemma getUpper_all_dq:
  "all_dq_up (snd (getUpperEncodersSpeedAndAcceleration C inp s)) =
     fst (lin_estimate C (linEstUp s) (all_q_up (snd (getUpperEncodersSpeedAndAcceleration C inp s))))"
  by (simp add: getUpperEncodersSpeedAndAcceleration_def case_prod_beta Let_def)

lemma readAndUpdate_all_dq:
  "all_dq_up (snd (readAndUpdate C waitMeasure init inp s)) =
     fst (lin_estimate C (linEstUp s) (all_q_up (snd (readAndUpdate C waitMeasure init inp s))))"
  by (simp add: readAndUpdate_def case_prod_beta Let_def getUpper_all_dq split: option.split)

lemma constructed_sizes:
  "length (q_torso constructed) = 3" "length (q_lleg constructed) = 7" "length (q_rleg constructed) = 7"
  "length (all_q_low constructed) = 17"
  "length (q_head constructed) = 3" "length (q_larm constructed) = 7" "length (q_rarm constructed) = 7"
  "length (all_q_up constructed) = 38"
  "length (encoders_torso constructed) = 3" "length (encoders_leg_left constructed) = 7"
  "length (encoders_leg_right constructed) = 7" "length (encoders_head constructed) = 6"
  "length (encoders_arm_left constructed) = 16" "length (encoders_arm_right constructed) = 16"
  "length (offset l constructed) = 6"
  by (cases l; simp add: constructed_def inverseDynamics_new_def init_upper_def init_lower_def Let_def)+

text \<open>
  Claim C1, as the code has it. Every cycle writes exactly four torque bottles: right
  leg, left leg, right arm, left arm, in this order, one on each of the four torque
  ports. Each bottle is an integer address (2 for the legs, 1 for the arms) followed by
  the torques of that limb in order. No bottle carries the torques of the torso or of
  the head.
\<close>

theorem run_publishes_four_torque_messages:
  "snd (run C inp s) =
     [(port_RLTorques, BInt 2 # map BDouble (getTorques (lowerTorso (icub (fst (run C inp s)))) ''right_leg'')),
      (port_LLTorques, BInt 2 # map BDouble (getTorques (lowerTorso (icub (fst (run C inp s)))) ''left_leg'')),
      (port_RATorques, BInt 1 # map BDouble (getTorques (upperTorso (icub (fst (run C inp s)))) ''right_arm'')),
      (port_LATorques, BInt 1 # map BDouble (getTorques (upperTorso (icub (fst (run C inp s)))) ''left_arm''))]"
  by (simp add: run_published writeTorque_def)

text \<open>
  Claim C1 as stated asks for five bottles, one of them for the torso. A cycle of the
  concrete robot writes to the four limb ports and does not write five bottles.
\<close>

theorem five_torque_messages_counterexample:
  "map fst (snd (run stub quiet constructed)) =
     [port_RLTorques, port_LLTorques, port_RATorques, port_LATorques]
   \<and> length (snd (run stub quiet constructed)) \<noteq> 5"
  by (simp add: run_published writeTorque_def)

text \<open>
  Claim C2, as the code has it. \<^verbatim>\<open>run\<close> calls \<^verbatim>\<open>setZeroJntAngVelAcc\<close> and then
  \<^verbatim>\<open>setUpperMeasure\<close> and \<^verbatim>\<open>setLowerMeasure\<close> again before it evaluates the model, so the
  joint velocities and accelerations that the model holds when it is evaluated are zero
  vectors for all six joint groups, whatever the estimators returned in this cycle and
  whatever an earlier cycle left.
\<close>

theorem model_receives_zero_velocity_and_acceleration:
  "DAng (limbs (upperTorso (icub (fst (run C inp s)))) ''head'') = replicate (length (dq_head s)) 0
   \<and> D2Ang (limbs (upperTorso (icub (fst (run C inp s)))) ''head'') = replicate (length (d2q_head s)) 0
   \<and> DAng (limbs (upperTorso (icub (fst (run C inp s)))) ''left_arm'') = replicate (length (dq_larm s)) 0
   \<and> D2Ang (limbs (upperTorso (icub (fst (run C inp s)))) ''left_arm'') = replicate (length (d2q_larm s)) 0
   \<and> DAng (limbs (upperTorso (icub (fst (run C inp s)))) ''right_arm'') = replicate (length (dq_rarm s)) 0
   \<and> D2Ang (limbs (upperTorso (icub (fst (run C inp s)))) ''right_arm'') = replicate (length (d2q_rarm s)) 0
   \<and> DAng (limbs (lowerTorso (icub (fst (run C inp s)))) ''torso'') = replicate (length (dq_torso s)) 0
   \<and> D2Ang (limbs (lowerTorso (icub (fst (run C inp s)))) ''torso'') = replicate (length (d2q_torso s)) 0
   \<and> DAng (limbs (lowerTorso (icub (fst (run C inp s)))) ''left_leg'') = replicate (length (dq_lleg s)) 0
   \<and> D2Ang (limbs (lowerTorso (icub (fst (run C inp s)))) ''left_leg'') = replicate (length (d2q_lleg s)) 0
   \<and> DAng (limbs (lowerTorso (icub (fst (run C inp s)))) ''right_leg'') = replicate (length (dq_rleg s)) 0
   \<and> D2Ang (limbs (lowerTorso (icub (fst (run C inp s)))) ''right_leg'') = replicate (length (d2q_rleg s)) 0"
  by (simp add: run_upper run_lower upper_measure_limbs lower_measure_limbs)

text \<open>
  Claim C2 as stated says that the model is evaluated on the velocities that the
  estimator derived in the cycle. On the concrete robot the estimator reports 1 for the
  three head joints (the first three entries of \<^verbatim>\<open>all_dq_up\<close>), and the head velocity on
  the model is zero, not \<^verbatim>\<open>CTRL_DEG2RAD\<close> times that.
\<close>

theorem derived_velocity_counterexample:
  "take 3 (all_dq_up (fst (run stub quiet constructed))) = [1, 1, 1]
   \<and> DAng (limbs (upperTorso (icub (fst (run stub quiet constructed)))) ''head'') = [0, 0, 0]
   \<and> DAng (limbs (upperTorso (icub (fst (run stub quiet constructed)))) ''head'')
       \<noteq> smul (CTRL_DEG2RAD stub) (take 3 (all_dq_up (fst (run stub quiet constructed))))"
proof -
  have len: "length (all_q_up (snd (readAndUpdate stub False False quiet (constructed\<lparr>thread_status := STATUS_OK\<rparr>)))) = 38"
    by (simp add: constructed_sizes)
  have "all_dq_up (fst (run stub quiet constructed)) = replicate 38 1"
    unfolding run_base_motion readAndUpdate_all_dq
    using len by (simp add: stub_def map_replicate_const)
  moreover have "take 3 (replicate 38 (1::real)) = [1, 1, 1]"
    by (simp add: numeral_eq_Suc)
  moreover have "DAng (limbs (upperTorso (icub (fst (run stub quiet constructed)))) ''head'') = [0, 0, 0]"
    by (simp add: run_upper upper_measure_limbs constructed_def inverseDynamics_new_def
        init_upper_def init_lower_def Let_def numeral_eq_Suc)
  ultimately show ?thesis
    by (simp add: smul_def stub_def)
qed

text \<open>
  The wrench of a sensor from one cycle to the next. A cycle whose non-blocking read
  delivers no new frame for a sensor skips the guarded assignment: the wrench of that
  sensor keeps the value it had before the cycle, whatever that value is, the model is
  evaluated on it, and the cycle runs to its end and writes its four bottles. After a
  cycle that received the frame \<open>f\<close>, followed by any number of cycles that received none,
  the wrench on which the model was last evaluated is \<open>-1 * (f - offset)\<close>.
\<close>

lemma cycle_without_frame_keeps_wrench:
  assumes "delivered l inp = None"
  shows "wrench l (fst (run C inp s)) = wrench l s
       \<and> model_wrench l (fst (run C inp s)) = wrench l s
       \<and> length (snd (run C inp s)) = 4"
  using assms by (simp add: run_model_wrench run_wrench run_published_length)

lemma wrench_from_last_frame_of_a_cycle:
  assumes "delivered l inp = Some f" and "\<forall>i \<in> set later. delivered l i = None"
  shows "model_wrench l (run_cycles C (inp # later) s) = smul (- 1) (vsub f (offset l s))"
proof -
  obtain pre z where snoc: "inp # later = pre @ [z]"
    using append_butlast_last_id[of "inp # later"] by (metis list.distinct(1))
  have "model_wrench l (run_cycles C (inp # later) s) = wrench l (run_cycles C (inp # later) s)"
    unfolding snoc run_cycles_snoc by (rule run_model_wrench)
  also have "\<dots> = wrench l (fst (run C inp s))"
    using assms(2) by (simp add: run_cycles_no_frame)
  also have "\<dots> = smul (- 1) (vsub f (offset l s))"
    using assms(1) by (simp add: run_wrench)
  finally show ?thesis .
qed

text \<open>
  Claim C5. After a cycle, the lower torso node is the result of \<^verbatim>\<open>update\<close> called with the
  torso angular velocity, angular acceleration and linear acceleration read from the
  upper torso node, and the upper torso node is the result of its own \<^verbatim>\<open>update\<close> in the
  same cycle, on the base motion and arm wrenches of that cycle: the base motion stored on
  the lower node equals the outputs of the upper node.
\<close>

theorem lower_update_takes_upper_outputs:
  "w_in (lowerTorso (icub (fst (run C inp s)))) = getTorsoAngVel (upperTorso (icub (fst (run C inp s))))
   \<and> dw_in (lowerTorso (icub (fst (run C inp s)))) = getTorsoAngAcc (upperTorso (icub (fst (run C inp s))))
   \<and> d2p_in (lowerTorso (icub (fst (run C inp s)))) = getTorsoLinAcc (upperTorso (icub (fst (run C inp s))))
   \<and> (\<exists>n. upperTorso (icub (fst (run C inp s))) =
          update (upper_dynamics C) (w0 (fst (run C inp s))) (dw0 (fst (run C inp s)))
            (d2p0 (fst (run C inp s))) (F_RArm (fst (run C inp s))) (F_LArm (fst (run C inp s)))
            (replicate 6 0) n)
   \<and> (\<exists>n. lowerTorso (icub (fst (run C inp s))) =
          update (lower_dynamics C) (getTorsoAngVel (upperTorso (icub (fst (run C inp s)))))
            (getTorsoAngAcc (upperTorso (icub (fst (run C inp s)))))
            (getTorsoLinAcc (upperTorso (icub (fst (run C inp s)))))
            (F_RLeg (fst (run C inp s))) (F_LLeg (fst (run C inp s))) (replicate 6 0) n)"
proof -
  let ?s' = "fst (run C inp s)"
  have low: "\<exists>n. lowerTorso (icub ?s') =
          update (lower_dynamics C) (getTorsoAngVel (upperTorso (icub ?s')))
            (getTorsoAngAcc (upperTorso (icub ?s'))) (getTorsoLinAcc (upperTorso (icub ?s')))
            (F_RLeg ?s') (F_LLeg ?s') (replicate 6 0) n"
    using run_lower[of C inp s] by blast
  have up: "\<exists>n. upperTorso (icub ?s') =
          update (upper_dynamics C) (w0 ?s') (dw0 ?s') (d2p0 ?s') (F_RArm ?s') (F_LArm ?s')
            (replicate 6 0) n"
    using run_upper[of C inp s] by blast
  from low obtain n where n: "lowerTorso (icub ?s') =
          update (lower_dynamics C) (getTorsoAngVel (upperTorso (icub ?s')))
            (getTorsoAngAcc (upperTorso (icub ?s'))) (getTorsoLinAcc (upperTorso (icub ?s')))
            (F_RLeg ?s') (F_LLeg ?s') (replicate 6 0) n" ..
  have "w_in (lowerTorso (icub ?s')) = getTorsoAngVel (upperTorso (icub ?s'))"
       "dw_in (lowerTorso (icub ?s')) = getTorsoAngAcc (upperTorso (icub ?s'))"
       "d2p_in (lowerTorso (icub ?s')) = getTorsoLinAcc (upperTorso (icub ?s'))"
    by (subst n, simp)+
  with up low show ?thesis by blast
qed



section \<open>Calibration\<close>

lemma rnd64_zero [simp]: "rnd64 0 = 0"
  by (simp add: rnd64_def round_even_def)

lemma ilog2_numeral:
  "ilog2 0 = 0" "ilog2 1 = 0"
  "ilog2 (numeral (Num.Bit0 n)) = 1 + ilog2 (numeral n)"
  "ilog2 (numeral (Num.Bit1 n)) = 1 + ilog2 (numeral n)"
  by (subst ilog2.simps, simp)+

lemmas rnd64_eval = rnd64_def ulp64_def binade_def round_even_def Let_def ilog2_numeral

lemma rounded_sum_numeral:
  "rounded_sum d (numeral n) = rnd64 (rounded_sum d (pred_numeral n) + d (pred_numeral n))"
  by (simp add: numeral_eq_Suc)

lemma smul64_length [simp]: "length (smul64 k v) = length v"
  by (simp add: smul64_def)

lemma vsub64_length [simp]: "length (vsub64 a b) = min (length a) (length b)"
  by (simp add: vsub64_def)

lemma vadd64_length [simp]: "length (vadd64 a b) = min (length a) (length b)"
  by (simp add: vadd64_def)

lemma vec64_nth [simp]:
  "k < length v \<Longrightarrow> smul64 c v ! k = rnd64 (c * v ! k)"
  "k < length a \<Longrightarrow> k < length b \<Longrightarrow> vsub64 a b ! k = rnd64 (a ! k - b ! k)"
  "k < length a \<Longrightarrow> k < length b \<Longrightarrow> vadd64 a b ! k = rnd64 (a ! k + b ! k)"
  by (simp_all add: smul64_def vsub64_def vadd64_def)

declare model_column.simps [simp del]

lemma model_column_length:
  assumes "\<forall>nd F. length (fst (upper_sensors C nd F)) = 6 \<and> length (fst (lower_sensors C nd F)) = 6"
  shows "length (model_column C s l) = 6"
  using assms
  by (cases l) (simp_all add: model_column.simps upper_sensor_matrix_def lower_sensor_matrix_def Let_def)

lemma calib_trial_result:
  assumes "\<forall>l. delivered l inp = Some (m l)"
  shows "\<exists>t. calib_trial C inp s = Inr t
           \<and> (\<forall>l. wrench l t = m l
                  \<and> offset l t = vadd64 (offset l s) (vsub64 (m l) (predicted l t))
                  \<and> predicted l t =
                      smul64 (- 1) (model_column C (snd (readAndUpdate C True True inp s)) l))"
proof -
  from assms have d: "port_ft_arm_left inp = Some (m LeftArm)" "port_ft_arm_right inp = Some (m RightArm)"
    "port_ft_leg_left inp = Some (m LeftLeg)" "port_ft_leg_right inp = Some (m RightLeg)"
    using delivered.simps by metis+
  let ?t = "projr (calib_trial C inp s)"
  have t: "calib_trial C inp s = Inr ?t"
    by (simp add: calib_trial_def Let_def case_prod_beta d)
  have "wrench l ?t = m l \<and> offset l ?t = vadd64 (offset l s) (vsub64 (m l) (predicted l ?t))
        \<and> predicted l ?t = smul64 (- 1) (model_column C (snd (readAndUpdate C True True inp s)) l)" for l
    by (cases l; simp add: calib_trial_def Let_def case_prod_beta d model_column.simps
          upper_sensor_matrix_def lower_sensor_matrix_def estimateSensorsWrench_def
          getTorsoAngVel_def getTorsoAngAcc_def getTorsoLinAcc_def)
  with t show ?thesis by blast
qed

lemma calib_loop_snoc:
  "calib_loop C env i (Suc n) s =
     (case calib_loop C env i n s of Inl e \<Rightarrow> Inl e | Inr t \<Rightarrow> calib_trial C (env (i + n)) t)"
proof (induction n arbitrary: i s)
  case 0
  show ?case by (simp split: sum.split)
next
  case (Suc n)
  show ?case
  proof (cases "calib_trial C (env i) s")
    case (Inl e)
    then show ?thesis by simp
  next
    case (Inr s1)
    have "calib_loop C env i (Suc (Suc n)) s = calib_loop C env (Suc i) (Suc n) s1"
      using Inr by simp
    also have "\<dots> = (case calib_loop C env (Suc i) n s1 of Inl e \<Rightarrow> Inl e
                      | Inr t \<Rightarrow> calib_trial C (env (Suc i + n)) t)"
      by (rule Suc.IH)
    also have "calib_loop C env (Suc i) n s1 = calib_loop C env i (Suc n) s"
      using Inr by simp
    finally show ?thesis by (simp cong: sum.case_cong)
  qed
qed

lemma calib_loop_trial_state:
  "calib_loop C env 0 (Suc n) (zero_offsets s) = trial_state C env s n"
proof (induction n)
  case 0
  show ?case by (simp split: sum.split)
next
  case (Suc n)
  have "calib_loop C env 0 (Suc (Suc n)) (zero_offsets s) =
          (case calib_loop C env 0 (Suc n) (zero_offsets s) of Inl e \<Rightarrow> Inl e
           | Inr t \<Rightarrow> calib_trial C (env (0 + Suc n)) t)"
    by (rule calib_loop_snoc)
  then show ?case
    unfolding Suc.IH by (simp cong: sum.case_cong)
qed

lemma zero_offsets_offset [simp]: "offset l (zero_offsets s) = zero_vec (offset l s)"
  by (cases l) (simp_all add: zero_offsets_def)

lemma trial_state_sum:
  assumes frames: "\<forall>i\<le>n. \<forall>l. delivered l (env i) = Some (m l i) \<and> length (m l i) = 6"
      and rows: "\<forall>nd F. length (fst (upper_sensors C nd F)) = 6 \<and> length (fst (lower_sensors C nd F)) = 6"
      and off: "\<forall>l. length (offset l s) = 6"
  shows "\<exists>t. trial_state C env s n = Inr t
           \<and> (\<forall>l. wrench l t = m l n \<and> length (offset l t) = 6
                  \<and> (\<forall>k<6. offset l t ! k =
                        rounded_sum (\<lambda>i. rnd64 (m l i ! k - trial_prediction C env s l i ! k)) (Suc n))
                  \<and> trial_prediction C env s l n =
                      smul64 (- 1) (model_column C (trial_reading C env s n) l))"
  using frames
proof (induction n)
  case 0
  then have d: "\<forall>l. delivered l (env 0) = Some (m l 0)" and len: "\<forall>l. length (m l 0) = 6"
    by simp_all
  from calib_trial_result[OF d, of C "zero_offsets s"] obtain t where
    t: "calib_trial C (env 0) (zero_offsets s) = Inr t"
    and r: "\<And>l. wrench l t = m l 0"
       "\<And>l. offset l t = vadd64 (offset l (zero_offsets s)) (vsub64 (m l 0) (predicted l t))"
       "\<And>l. predicted l t =
              smul64 (- 1) (model_column C (snd (readAndUpdate C True True (env 0) (zero_offsets s))) l)"
    by blast
  have tp: "trial_prediction C env s l 0 = predicted l t" for l
    by (simp add: trial_prediction_def t)
  have pl: "length (predicted l t) = 6" for l
    by (simp add: r(3) model_column_length[OF rows])
  have col: "trial_prediction C env s l 0 = smul64 (- 1) (model_column C (trial_reading C env s 0) l)" for l
    by (simp add: tp r(3) trial_reading_def)
  have "length (offset l t) = 6
        \<and> (\<forall>k<6. offset l t ! k =
               rounded_sum (\<lambda>i. rnd64 (m l i ! k - trial_prediction C env s l i ! k)) (Suc 0))" for l
    using pl[of l] len off by (simp add: r(2) tp zero_vec_def)
  with t r(1) col show ?case by simp
next
  case (Suc n)
  then obtain t0 where t0: "trial_state C env s n = Inr t0"
    and i0: "\<And>l. length (offset l t0) = 6"
      "\<And>l k. k < 6 \<Longrightarrow> offset l t0 ! k =
          rounded_sum (\<lambda>i. rnd64 (m l i ! k - trial_prediction C env s l i ! k)) (Suc n)"
    by force
  from Suc.prems have d: "\<forall>l. delivered l (env (Suc n)) = Some (m l (Suc n))"
    and len: "\<forall>l. length (m l (Suc n)) = 6"
    by simp_all
  from calib_trial_result[OF d, of C t0] obtain t where
    t: "calib_trial C (env (Suc n)) t0 = Inr t"
    and r: "\<And>l. wrench l t = m l (Suc n)"
       "\<And>l. offset l t = vadd64 (offset l t0) (vsub64 (m l (Suc n)) (predicted l t))"
       "\<And>l. predicted l t =
              smul64 (- 1) (model_column C (snd (readAndUpdate C True True (env (Suc n)) t0)) l)"
    by blast
  have ts: "trial_state C env s (Suc n) = Inr t"
    by (simp add: t0 t)
  have tp: "trial_prediction C env s l (Suc n) = predicted l t" for l
    by (simp add: trial_prediction_def ts del: trial_state.simps)
  have pl: "length (predicted l t) = 6" for l
    by (simp add: r(3) model_column_length[OF rows])
  have col: "trial_prediction C env s l (Suc n) =
               smul64 (- 1) (model_column C (trial_reading C env s (Suc n)) l)" for l
    by (simp add: tp r(3) trial_reading_def t0)
  have "length (offset l t) = 6
        \<and> (\<forall>k<6. offset l t ! k =
               rounded_sum (\<lambda>i. rnd64 (m l i ! k - trial_prediction C env s l i ! k)) (Suc (Suc n)))" for l
    using pl[of l] len i0(1)[of l] i0(2)[of _ l]
    by (simp add: r(2) tp)
  with ts r(1) col show ?case by simp
qed

lemma trial_prediction_column:
  assumes frames: "\<forall>i<Ntrials. \<forall>l. delivered l (env i) = Some (m l i) \<and> length (m l i) = 6"
      and rows: "\<forall>nd F. length (fst (upper_sensors C nd F)) = 6 \<and> length (fst (lower_sensors C nd F)) = 6"
      and off: "\<forall>l. length (offset l s) = 6"
      and i: "i < Ntrials"
  shows "trial_prediction C env s l i = smul64 (- 1) (model_column C (trial_reading C env s i) l)"
proof -
  from frames i have "\<forall>j\<le>i. \<forall>l. delivered l (env j) = Some (m l j) \<and> length (m l j) = 6"
    by simp
  from trial_state_sum[OF this rows off] show ?thesis
    by blast
qed

lemma trial_prediction_length:
  assumes frames: "\<forall>i<Ntrials. \<forall>l. delivered l (env i) = Some (m l i) \<and> length (m l i) = 6"
      and rows: "\<forall>nd F. length (fst (upper_sensors C nd F)) = 6 \<and> length (fst (lower_sensors C nd F)) = 6"
      and off: "\<forall>l. length (offset l s) = 6"
      and i: "i < Ntrials"
  shows "length (trial_prediction C env s l i) = 6"
  by (simp add: trial_prediction_column[OF frames rows off i] model_column_length[OF rows])

lemma calibrateOffset_rounded:
  assumes N: "0 < Ntrials"
      and frames: "\<forall>i<Ntrials. \<forall>l. delivered l (env i) = Some (m l i) \<and> length (m l i) = 6"
      and rows: "\<forall>nd F. length (fst (upper_sensors C nd F)) = 6 \<and> length (fst (lower_sensors C nd F)) = 6"
      and off: "\<forall>l. length (offset l s) = 6"
  shows "\<exists>s'. calibrateOffset C Ntrials env s = Inr s'
           \<and> (\<forall>l. wrench l s' = m l (Ntrials - 1) \<and> length (offset l s') = 6
                  \<and> (\<forall>k<6. offset l s' ! k =
                        rounded_mean (\<lambda>i. m l i ! k - trial_prediction C env s l i ! k) Ntrials))"
proof -
  from N obtain n where n: "Ntrials = Suc n" by (cases Ntrials) simp_all
  from frames have "\<forall>i\<le>n. \<forall>l. delivered l (env i) = Some (m l i) \<and> length (m l i) = 6"
    by (simp add: n less_Suc_eq_le)
  from trial_state_sum[OF this rows off] obtain t where
    t: "trial_state C env s n = Inr t"
    and r: "\<And>l. wrench l t = m l n" "\<And>l. length (offset l t) = 6"
       "\<And>l k. k < 6 \<Longrightarrow> offset l t ! k =
           rounded_sum (\<lambda>i. rnd64 (m l i ! k - trial_prediction C env s l i ! k)) (Suc n)"
    by blast
  let ?s' = "t\<lparr>Offset_LArm := smul64 (rnd64 (1 / real Ntrials)) (Offset_LArm t),
               Offset_RArm := smul64 (rnd64 (1 / real Ntrials)) (Offset_RArm t),
               Offset_LLeg := smul64 (rnd64 (1 / real Ntrials)) (Offset_LLeg t),
               Offset_RLeg := smul64 (rnd64 (1 / real Ntrials)) (Offset_RLeg t)\<rparr>"
  have loop: "calib_loop C env 0 Ntrials (zero_offsets s) = Inr t"
    unfolding n calib_loop_trial_state by (rule t)
  have c: "calibrateOffset C Ntrials env s = Inr ?s'"
    using N loop by (simp add: calibrateOffset_def Let_def zero_offsets_def del: calib_loop.simps)
  have s': "wrench l ?s' = wrench l t" "offset l ?s' = smul64 (rnd64 (1 / real Ntrials)) (offset l t)" for l
    by (cases l; simp)+
  have "wrench l ?s' = m l (Ntrials - 1) \<and> length (offset l ?s') = 6
        \<and> (\<forall>k<6. offset l ?s' ! k =
              rounded_mean (\<lambda>i. m l i ! k - trial_prediction C env s l i ! k) Ntrials)" for l
    unfolding s' rounded_mean_def using r(1)[of l] r(2)[of l] r(3)[of _ l]
    by (simp add: n del: rounded_sum.simps)
  with c show ?thesis by blast
qed

lemma rounded_sum_exact:
  assumes "\<forall>i<n. is_binary64 (e i)" and "\<forall>j<n. is_binary64 (\<Sum>i\<le>j. e i)"
  shows "rounded_sum (\<lambda>i. rnd64 (e i)) n = (\<Sum>i<n. e i)"
  using assms
proof (induction n)
  case 0
  show ?case by simp
next
  case (Suc n)
  then have ih: "rounded_sum (\<lambda>i. rnd64 (e i)) n = (\<Sum>i<n. e i)"
    by simp
  from Suc.prems have last: "rnd64 (e n) = e n"
    by (simp add: is_binary64_def)
  from Suc.prems have "is_binary64 (\<Sum>i\<le>n. e i)"
    by blast
  then have total: "rnd64 ((\<Sum>i<n. e i) + e n) = (\<Sum>i<n. e i) + e n"
    by (simp add: is_binary64_def lessThan_Suc_atMost[symmetric])
  show ?case
    by (simp add: ih last total)
qed

lemma rounded_mean_exact:
  assumes "exact_mean e N"
  shows "rounded_mean e N = (\<Sum>i<N. e i) / real N"
proof -
  from assms have q: "rnd64 (1 / real N) = 1 / real N"
    and terms: "\<forall>i<N. is_binary64 (e i)" and sums: "\<forall>j<N. is_binary64 (\<Sum>i\<le>j. e i)"
    and mean: "rnd64 ((\<Sum>i<N. e i) / real N) = (\<Sum>i<N. e i) / real N"
    by (simp_all add: exact_mean_def is_binary64_def)
  show ?thesis
    unfolding rounded_mean_def q rounded_sum_exact[OF terms sums]
    using mean by simp
qed

lemma calibrateOffset_constant:
  assumes N: "0 < Ntrials"
      and frames: "\<forall>i<Ntrials. \<forall>l. delivered l (env i) = Some (m l i) \<and> length (m l i) = 6"
      and rows: "\<forall>nd F. length (fst (upper_sensors C nd F)) = 6 \<and> length (fst (lower_sensors C nd F)) = 6"
      and off: "\<forall>l. length (offset l s) = 6"
      and const: "\<forall>i<Ntrials. m l i = x \<and> trial_prediction C env s l i = p"
      and c: "calibrateOffset C Ntrials env s = Inr s'"
  shows "length (offset l s') = 6 \<and> length x = 6 \<and> length p = 6 \<and> wrench l s' = x
         \<and> (\<forall>k<6. offset l s' ! k = rounded_mean (\<lambda>i. x ! k - p ! k) Ntrials)"
proof -
  from calibrateOffset_rounded[OF N frames rows off] c
  have r: "wrench l s' = m l (Ntrials - 1)" "length (offset l s') = 6"
       "\<And>k. k < 6 \<Longrightarrow> offset l s' ! k =
            rounded_mean (\<lambda>i. m l i ! k - trial_prediction C env s l i ! k) Ntrials"
    by auto
  have x: "length x = 6" using frames const N by auto
  have p: "length p = 6"
    using trial_prediction_length[OF frames rows off N, of l] const N by auto
  have "rounded_sum (\<lambda>i. rnd64 (m l i ! k - trial_prediction C env s l i ! k)) n
          = rounded_sum (\<lambda>i. rnd64 (x ! k - p ! k)) n" if "n \<le> Ntrials" for n k
    using that const by (induction n) simp_all
  then have "rounded_mean (\<lambda>i. m l i ! k - trial_prediction C env s l i ! k) Ntrials
          = rounded_mean (\<lambda>i. x ! k - p ! k) Ntrials" for k
    by (simp add: rounded_mean_def)
  with r x p const N show ?thesis
    by simp
qed

text \<open>
  The calibration on the concrete robot: the frames and the predictions of its trials,
  the rounded operations that occur in them, and the states it ends in.
\<close>

lemma steady_frames:
  "\<forall>i<n. \<forall>l. delivered l (steady_trials i) = Some ((\<lambda>l i. [1, 2, 3, 4, 5, 6]) l i)
             \<and> length ((\<lambda>l i. [1, 2, 3, 4, 5, 6 :: real]) l i) = 6"
proof (intro allI impI)
  fix i l
  show "delivered l (steady_trials i) = Some ((\<lambda>l i. [1, 2, 3, 4, 5, 6]) l i)
             \<and> length ((\<lambda>l i. [1, 2, 3, 4, 5, 6 :: real]) l i) = 6"
    by (cases l) (simp_all add: steady_trials_def steady_def quiet_def)
qed

lemma tenths_frames:
  "\<forall>i<n. \<forall>l. delivered l (tenths_trials i) = Some ((\<lambda>l i. replicate 6 tenth) l i)
             \<and> length ((\<lambda>l i. replicate 6 tenth) l i) = 6"
proof (intro allI impI)
  fix i l
  show "delivered l (tenths_trials i) = Some ((\<lambda>l i. replicate 6 tenth) l i)
             \<and> length ((\<lambda>l i. replicate 6 tenth) l i) = 6"
    by (cases l) (simp_all add: tenths_trials_def tenths_def steady_def quiet_def)
qed

lemma stub_rows:
  "\<forall>nd F. length (fst (upper_sensors stub nd F)) = 6 \<and> length (fst (lower_sensors stub nd F)) = 6"
  by (simp add: stub_def)

lemma column_model_rows:
  "\<forall>nd F. length (fst (upper_sensors column_model nd F)) = 6
          \<and> length (fst (lower_sensors column_model nd F)) = 6"
  by (simp add: column_model_def)

lemma constructed_offsets: "\<forall>l. length (offset l constructed) = 6"
  by (simp add: constructed_sizes)

lemma stub_column: "model_column stub s l = replicate 6 0"
  by (cases l) (simp_all add: model_column.simps upper_sensor_matrix_def lower_sensor_matrix_def
      stub_def getCol_def map_replicate_const Let_def)

lemma column_model_column:
  "model_column column_model s LeftArm = replicate 6 2"
  "model_column column_model s RightArm = replicate 6 1"
  "model_column column_model s LeftLeg = replicate 6 4"
  "model_column column_model s RightLeg = replicate 6 3"
  by (simp_all add: model_column.simps upper_sensor_matrix_def lower_sensor_matrix_def
      column_model_def getCol_def map_replicate_const Let_def)

lemma stub_prediction:
  "trial_prediction stub steady_trials constructed l i = replicate 6 0"
  using trial_prediction_column[OF steady_frames[of "Suc i"] stub_rows constructed_offsets, of i l]
  by (simp add: stub_column smul64_def map_replicate_const)

lemma tenths_prediction:
  "trial_prediction stub tenths_trials constructed l i = replicate 6 0"
  using trial_prediction_column[OF tenths_frames[of "Suc i"] stub_rows constructed_offsets, of i l]
  by (simp add: stub_column smul64_def map_replicate_const)

lemma rnd64_small:
  "rnd64 (- 1) = - 1" "rnd64 (- 2) = - 2" "rnd64 (- 3) = - 3" "rnd64 (- 4) = - 4"
  by (simp_all add: rnd64_eval)

lemma column_model_prediction:
  "trial_prediction column_model steady_trials constructed LeftArm i = replicate 6 (- 2)"
  "trial_prediction column_model steady_trials constructed RightArm i = replicate 6 (- 1)"
  "trial_prediction column_model steady_trials constructed LeftLeg i = replicate 6 (- 4)"
  "trial_prediction column_model steady_trials constructed RightLeg i = replicate 6 (- 3)"
  unfolding trial_prediction_column[OF steady_frames[of "Suc i"] column_model_rows constructed_offsets lessI]
    column_model_column
  by (simp_all add: smul64_def map_replicate_const rnd64_small)

lemma rounded_mean_ten:
  "rounded_mean (\<lambda>i. 1) 10 = 1" "rounded_mean (\<lambda>i. 2) 10 = 2" "rounded_mean (\<lambda>i. 3) 10 = 3"
  "rounded_mean (\<lambda>i. 4) 10 = 4" "rounded_mean (\<lambda>i. 5) 10 = 5" "rounded_mean (\<lambda>i. 6) 10 = 6"
  by (simp_all add: rounded_mean_def rounded_sum_numeral rnd64_eval)

lemma rounded_mean_tenth:
  "rounded_mean (\<lambda>i. tenth) 10 = 7205759403792793 / 72057594037927936"
  by (simp add: rounded_mean_def tenth_def rounded_sum_numeral rnd64_eval)

lemma tenth_binary64: "is_binary64 tenth"
  by (simp add: is_binary64_def tenth_def rnd64_eval)

lemma exact_mean_const4:
  "exact_mean (\<lambda>i. v) 4 =
     (is_binary64 (1 / 4) \<and> is_binary64 v \<and> is_binary64 (2 * v) \<and> is_binary64 (3 * v)
      \<and> is_binary64 (4 * v) \<and> is_binary64 (4 * v / 4))"
  by (auto simp add: exact_mean_def numeral_eq_Suc less_Suc_eq algebra_simps)

lemma exact_mean_four:
  "exact_mean (\<lambda>i. 2) 4" "exact_mean (\<lambda>i. 3) 4" "exact_mean (\<lambda>i. 4) 4" "exact_mean (\<lambda>i. 5) 4"
  "exact_mean (\<lambda>i. 6) 4" "exact_mean (\<lambda>i. 7) 4" "exact_mean (\<lambda>i. 8) 4" "exact_mean (\<lambda>i. 9) 4"
  "exact_mean (\<lambda>i. 10) 4"
  by (simp_all add: exact_mean_const4 is_binary64_def rnd64_eval)

lemma less6_cases: "k < 6 \<Longrightarrow> k = 0 \<or> k = 1 \<or> k = 2 \<or> k = 3 \<or> k = 4 \<or> k = (5::nat)"
  by arith

lemma stub_calibration:
  "\<exists>t. calibrateOffset stub 10 steady_trials constructed = Inr t
       \<and> offset l t = [1, 2, 3, 4, 5, 6] \<and> wrench l t = [1, 2, 3, 4, 5, 6]"
proof -
  have N: "(0::nat) < 10" by simp
  from calibrateOffset_rounded[OF N steady_frames stub_rows constructed_offsets] obtain t where
    t: "calibrateOffset stub 10 steady_trials constructed = Inr t"
    by blast
  have const: "\<forall>i<10. (\<lambda>l i. [1, 2, 3, 4, 5, 6]) l i = [1, 2, 3, 4, 5, 6 :: real]
                  \<and> trial_prediction stub steady_trials constructed l i = replicate 6 0"
    using stub_prediction by simp
  from calibrateOffset_constant[OF N steady_frames stub_rows constructed_offsets const t]
  have len: "length (offset l t) = 6" and w: "wrench l t = [1, 2, 3, 4, 5, 6]"
    and r: "\<And>k. k < 6 \<Longrightarrow> offset l t ! k =
               rounded_mean (\<lambda>i. [1, 2, 3, 4, 5, 6] ! k - replicate 6 0 ! k) 10"
    by simp_all
  have "offset l t ! k = [1, 2, 3, 4, 5, 6] ! k" if "k < 6" for k
    using less6_cases[OF that] r[OF that] by (auto simp add: rounded_mean_ten)
  with len have "offset l t = [1, 2, 3, 4, 5, 6]"
    by (intro nth_equalityI) simp_all
  with t w show ?thesis by blast
qed

lemma threadInit_fields:
  "threadInit C env s = Inr t \<Longrightarrow>
     \<exists>t0. calibrateOffset C 10 env s = Inr t0 \<and> offset l t = offset l t0 \<and> wrench l t = wrench l t0"
  by (cases l; auto simp add: threadInit_def split: sum.splits)

lemma calibrated_state:
  "threadInit stub steady_trials constructed = Inr calibrated"
  "offset l calibrated = [1, 2, 3, 4, 5, 6]"
  "wrench l calibrated = [1, 2, 3, 4, 5, 6]"
proof -
  from stub_calibration[of LeftArm] obtain t0 where "calibrateOffset stub 10 steady_trials constructed = Inr t0"
    by blast
  then show init: "threadInit stub steady_trials constructed = Inr calibrated"
    by (simp add: calibrated_def threadInit_def)
  from threadInit_fields[OF init, of l] stub_calibration[of l]
  show "offset l calibrated = [1, 2, 3, 4, 5, 6]" "wrench l calibrated = [1, 2, 3, 4, 5, 6]"
    by auto
qed

lemma tenths_calibration:
  "calibrateOffset stub 10 tenths_trials constructed = Inr calibrated_on_tenths"
  "offset l calibrated_on_tenths = replicate 6 (7205759403792793 / 72057594037927936)"
proof -
  have N: "(0::nat) < 10" by simp
  from calibrateOffset_rounded[OF N tenths_frames stub_rows constructed_offsets] obtain t where
    t: "calibrateOffset stub 10 tenths_trials constructed = Inr t"
    by blast
  then show c: "calibrateOffset stub 10 tenths_trials constructed = Inr calibrated_on_tenths"
    by (simp add: calibrated_on_tenths_def)
  have const: "\<forall>i<10. (\<lambda>l i. replicate 6 tenth) l i = replicate 6 tenth
                  \<and> trial_prediction stub tenths_trials constructed l i = replicate 6 0"
    using tenths_prediction by simp
  from calibrateOffset_constant[OF N tenths_frames stub_rows constructed_offsets const c]
  have len: "length (offset l calibrated_on_tenths) = 6"
    and r: "\<And>k. k < 6 \<Longrightarrow> offset l calibrated_on_tenths ! k =
               rounded_mean (\<lambda>i. replicate 6 tenth ! k - replicate 6 0 ! k) 10"
    by simp_all
  have "offset l calibrated_on_tenths ! k = replicate 6 (7205759403792793 / 72057594037927936) ! k"
    if "k < 6" for k
    using that r[OF that] by (simp add: rounded_mean_tenth)
  with len show "offset l calibrated_on_tenths = replicate 6 (7205759403792793 / 72057594037927936)"
    by (intro nth_equalityI) simp_all
qed


lemma all_less6: "(\<forall>k<6. P k) = (P 0 \<and> P 1 \<and> P 2 \<and> P 3 \<and> P 4 \<and> P (5::nat))"
  using less6_cases by auto

lemma column_model_bounds:
  "\<forall>i<n. \<forall>l. \<forall>k<6. \<bar>(\<lambda>l i. [1, 2, 3, 4, 5, 6 :: real]) l i ! k\<bar> \<le> 2 ^ 900
      \<and> \<bar>model_column column_model (trial_reading column_model steady_trials constructed i) l ! k\<bar> \<le> 2 ^ 900"
proof (intro allI impI)
  fix i l and k :: nat
  assume k: "k < 6"
  have "\<bar>[1, 2, 3, 4, 5, 6 :: real] ! k\<bar> \<le> 2 ^ 900"
    using less6_cases[OF k] by auto
  moreover have "\<bar>model_column column_model s l ! k\<bar> \<le> 2 ^ 900" for s
    using k by (cases l) (simp_all add: column_model_column)
  ultimately show "\<bar>(\<lambda>l i. [1, 2, 3, 4, 5, 6 :: real]) l i ! k\<bar> \<le> 2 ^ 900
      \<and> \<bar>model_column column_model (trial_reading column_model steady_trials constructed i) l ! k\<bar> \<le> 2 ^ 900"
    by simp
qed

lemma vsub_frame_columns:
  "vsub [1, 2, 3, 4, 5, 6] (replicate 6 (- 2)) = [3, 4, 5, 6, 7, 8]"
  "vsub [1, 2, 3, 4, 5, 6] (replicate 6 (- 1)) = [2, 3, 4, 5, 6, 7]"
  "vsub [1, 2, 3, 4, 5, 6] (replicate 6 (- 4)) = [5, 6, 7, 8, 9, 10]"
  "vsub [1, 2, 3, 4, 5, 6] (replicate 6 (- 3)) = [4, 5, 6, 7, 8, 9]"
  by (simp_all add: vsub_def numeral_eq_Suc)

text \<open>
  Claim C4, as the code has it. Let \<open>1 \<le> Ntrials\<close> (an \<^verbatim>\<open>unsigned int\<close>), let every trial
  receive a six-axis frame \<open>m l i\<close> on each sensor port (the blocking reads return), let
  the model return six-row matrices, the offsets have six entries, and all measured and
  predicted entries have magnitude at most \<open>2^900\<close> (no operation overflows). Then
  \<^verbatim>\<open>calibrateOffset\<close> returns, and:
  the wrench predicted for a sensor in a trial, \<^verbatim>\<open>F_iDyn\<close>, is minus one times the sensor's
  column of the model's matrix for the joint state read in that trial (arms from the
  upper chain, legs from the lower chain, right limb column 0, left limb column 1);
  every entry of every offset is the mean of measured minus predicted over the trials as
  binary64 computes it, \<open>rounded_mean\<close>: each difference, each partial sum, the quotient
  \<^verbatim>\<open>1.0/Ntrials\<close> and the final product are rounded to nearest;
  when none of these operations rounds, the entry is the arithmetic mean;
  and when, moreover, measured and predicted are the same in all trials, the offset is
  measured minus predicted.
\<close>

theorem calibrateOffset_is_rounded_mean:
  assumes "1 \<le> Ntrials" and "Ntrials < 2 ^ 32"
      and "\<forall>i<Ntrials. \<forall>l. delivered l (env i) = Some (m l i) \<and> length (m l i) = 6"
      and "\<forall>nd F. length (fst (upper_sensors C nd F)) = 6 \<and> length (fst (lower_sensors C nd F)) = 6"
      and "\<forall>l. length (offset l s) = 6"
      and "\<forall>i<Ntrials. \<forall>l. \<forall>k<6. \<bar>m l i ! k\<bar> \<le> 2 ^ 900
              \<and> \<bar>model_column C (trial_reading C env s i) l ! k\<bar> \<le> 2 ^ 900"
  shows "\<exists>s'. calibrateOffset C Ntrials env s = Inr s'
           \<and> (\<forall>l. \<forall>i<Ntrials. trial_prediction C env s l i =
                  smul64 (- 1) (model_column C (trial_reading C env s i) l))
           \<and> (\<forall>l. \<forall>k<6. offset l s' ! k =
                  rounded_mean (\<lambda>i. m l i ! k - trial_prediction C env s l i ! k) Ntrials)
           \<and> (\<forall>l. \<forall>k<6. exact_mean (\<lambda>i. m l i ! k - trial_prediction C env s l i ! k) Ntrials \<longrightarrow>
                  offset l s' ! k =
                    (\<Sum>i<Ntrials. m l i ! k - trial_prediction C env s l i ! k) / real Ntrials)
           \<and> (\<forall>l x p. (\<forall>i<Ntrials. m l i = x \<and> trial_prediction C env s l i = p)
                    \<and> (\<forall>k<6. exact_mean (\<lambda>i. x ! k - p ! k) Ntrials)
                  \<longrightarrow> offset l s' = vsub x p)"
proof -
  from assms(1) have N: "0 < Ntrials" by simp
  note frames = assms(3) and rows = assms(4) and off = assms(5)
  from calibrateOffset_rounded[OF N frames rows off] obtain s' where
    c: "calibrateOffset C Ntrials env s = Inr s'"
    and mean: "\<forall>l. \<forall>k<6. offset l s' ! k =
                  rounded_mean (\<lambda>i. m l i ! k - trial_prediction C env s l i ! k) Ntrials"
    by blast
  have col: "\<forall>l. \<forall>i<Ntrials. trial_prediction C env s l i =
                  smul64 (- 1) (model_column C (trial_reading C env s i) l)"
    using trial_prediction_column[OF frames rows off] by blast
  have exact: "\<forall>l. \<forall>k<6. exact_mean (\<lambda>i. m l i ! k - trial_prediction C env s l i ! k) Ntrials \<longrightarrow>
                  offset l s' ! k =
                    (\<Sum>i<Ntrials. m l i ! k - trial_prediction C env s l i ! k) / real Ntrials"
    using mean by (simp add: rounded_mean_exact)
  have "offset l s' = vsub x p"
    if const: "\<forall>i<Ntrials. m l i = x \<and> trial_prediction C env s l i = p"
      and ex: "\<forall>k<6. exact_mean (\<lambda>i. x ! k - p ! k) Ntrials" for l x p
  proof -
    from calibrateOffset_constant[OF N frames rows off const c]
    have len: "length (offset l s') = 6" "length x = 6" "length p = 6"
      and r: "\<And>k. k < 6 \<Longrightarrow> offset l s' ! k = rounded_mean (\<lambda>i. x ! k - p ! k) Ntrials"
      by simp_all
    have "offset l s' ! k = vsub x p ! k" if "k < 6" for k
      using that ex N len by (simp add: r rounded_mean_exact)
    with len show ?thesis
      by (intro nth_equalityI) simp_all
  qed
  with c col mean exact show ?thesis by blast
qed

text \<open>
  Claim C4, as the code has it, on the concrete robot: four trials with the frame 1..6 on
  every sensor port and the model \<open>column_model\<close>. The predicted wrenches are -2 for the
  left arm (column 1 of the upper matrix), -1 for the right arm (column 0 of the upper
  matrix), -4 for the left leg and -3 for the right leg (columns 1 and 0 of the lower
  matrix); no operation rounds, and each offset is measured minus predicted.
\<close>

theorem calibrateOffset_is_rounded_mean_witness:
  "(1::nat) \<le> 4 \<and> (4::nat) < 2 ^ 32
   \<and> (\<exists>s'. calibrateOffset column_model 4 steady_trials constructed = Inr s'
          \<and> offset LeftArm s' = [3, 4, 5, 6, 7, 8] \<and> offset RightArm s' = [2, 3, 4, 5, 6, 7]
          \<and> offset LeftLeg s' = [5, 6, 7, 8, 9, 10] \<and> offset RightLeg s' = [4, 5, 6, 7, 8, 9])"
proof -
  have N: "(1::nat) \<le> 4" "(4::nat) < 2 ^ 32" by simp_all
  from calibrateOffset_is_rounded_mean[OF N steady_frames column_model_rows constructed_offsets
      column_model_bounds]
  obtain s' where
    c: "calibrateOffset column_model 4 steady_trials constructed = Inr s'"
    and const: "\<And>l x p. (\<forall>i<4. [1, 2, 3, 4, 5, 6] = x
                          \<and> trial_prediction column_model steady_trials constructed l i = p)
                    \<and> (\<forall>k<6. exact_mean (\<lambda>i. x ! k - p ! k) 4)
                  \<Longrightarrow> offset l s' = vsub x p"
    by blast
  have la: "offset LeftArm s' = vsub [1, 2, 3, 4, 5, 6] (replicate 6 (- 2))"
    by (rule const) (simp add: column_model_prediction all_less6 exact_mean_four)
  have ra: "offset RightArm s' = vsub [1, 2, 3, 4, 5, 6] (replicate 6 (- 1))"
    by (rule const) (simp add: column_model_prediction all_less6 exact_mean_four)
  have ll: "offset LeftLeg s' = vsub [1, 2, 3, 4, 5, 6] (replicate 6 (- 4))"
    by (rule const) (simp add: column_model_prediction all_less6 exact_mean_four)
  have rl: "offset RightLeg s' = vsub [1, 2, 3, 4, 5, 6] (replicate 6 (- 3))"
    by (rule const) (simp add: column_model_prediction all_less6 exact_mean_four)
  from c la ra ll rl N show ?thesis
    by (simp add: vsub_frame_columns)
qed

text \<open>
  Claim C4 as stated says that the offset is measured minus predicted exactly, for any
  number of trials, when both are constant. Ten trials (the number \<^verbatim>\<open>threadInit\<close> asks for)
  in which every sensor port delivers the frame whose entries are \<open>tenth\<close>, a binary64
  number, and the model predicts zero: measured minus predicted is \<open>tenth\<close> in every
  trial, and every entry of the offset is the binary64 number next below \<open>tenth\<close>,
  0.09999999999999999: the rounded sum of the ten differences is \<open>1 - 2^-53\<close>, not ten
  times \<open>tenth\<close>, and its product with the rounded quotient \<^verbatim>\<open>1.0/10\<close> rounds down.
\<close>

theorem constant_tenth_counterexample:
  "tenths_trials = (\<lambda>i. tenths) \<and> delivered LeftArm tenths = Some (replicate 6 tenth)
   \<and> is_binary64 tenth
   \<and> trial_prediction stub tenths_trials constructed LeftArm = (\<lambda>i. replicate 6 0)
   \<and> calibrateOffset stub 10 tenths_trials constructed = Inr calibrated_on_tenths
   \<and> offset LeftArm calibrated_on_tenths = replicate 6 (7205759403792793 / 72057594037927936)
   \<and> vsub (replicate 6 tenth) (replicate 6 0) = replicate 6 tenth
   \<and> 7205759403792793 / 72057594037927936 < tenth"
proof -
  have "tenths_trials = (\<lambda>i. tenths)"
    by (rule ext) (simp add: tenths_trials_def)
  moreover have "delivered LeftArm tenths = Some (replicate 6 tenth)"
    by (simp add: tenths_def steady_def quiet_def)
  moreover have "trial_prediction stub tenths_trials constructed LeftArm = (\<lambda>i. replicate 6 0)"
    by (rule ext) (rule tenths_prediction)
  moreover have "vsub (replicate 6 tenth) (replicate 6 0) = replicate 6 tenth"
    by (simp add: vsub_def numeral_eq_Suc)
  moreover have "7205759403792793 / 72057594037927936 < tenth"
    by (simp add: tenth_def)
  ultimately show ?thesis
    using tenth_binary64 tenths_calibration(1) tenths_calibration(2)[of LeftArm] by simp
qed

section \<open>The first cycle after the calibration\<close>

text \<open>
  \<^verbatim>\<open>calibrateOffset\<close> leaves in \<^verbatim>\<open>F_LArm\<close> ... \<^verbatim>\<open>F_RLeg\<close> the raw frame of its last trial,
  not minus one times (the frame minus the offset). A first cycle without a new frame
  keeps that value.

  Claim C3 at that cycle. The ten trials of \<^verbatim>\<open>threadInit\<close> receive the frame 1..6 on the
  port of the right leg and the model predicts zero, so the offset is 1..6; the first
  cycle receives no new frame. The wrench of the right leg after the cycle is 1..6, the
  raw frame, the model is evaluated on it and the four bottles are written; the value
  computed from the stored frame, minus one times (the frame minus the offset), is zero.
\<close>

theorem first_cycle_without_frame_uses_raw_frame:
  "steady_trials = (\<lambda>i. steady) \<and> delivered RightLeg steady = Some [1, 2, 3, 4, 5, 6]
   \<and> threadInit stub steady_trials constructed = Inr calibrated
   \<and> delivered RightLeg quiet = None
   \<and> wrench RightLeg (fst (run stub quiet calibrated)) = [1, 2, 3, 4, 5, 6]
   \<and> model_wrench RightLeg (fst (run stub quiet calibrated)) = [1, 2, 3, 4, 5, 6]
   \<and> length (snd (run stub quiet calibrated)) = 4
   \<and> smul (- 1) (vsub [1, 2, 3, 4, 5, 6] (offset RightLeg calibrated)) = [0, 0, 0, 0, 0, 0]"
proof -
  have "steady_trials = (\<lambda>i. steady)"
    by (rule ext) (simp add: steady_trials_def)
  moreover have "delivered RightLeg steady = Some [1, 2, 3, 4, 5, 6]" "delivered RightLeg quiet = None"
    by (simp_all add: steady_def quiet_def)
  moreover have "smul (- 1) (vsub [1, 2, 3, 4, 5, 6] [1, 2, 3, 4, 5, 6]) = [0, 0, 0, 0, 0, 0]"
    by (simp add: smul_def vsub_def)
  ultimately show ?thesis
    by (simp add: calibrated_state run_model_wrench run_wrench run_published_length)
qed

text \<open>
  Claim C6 at that cycle, for the left arm, from which the calibration has received the
  frame 1..6: the model is evaluated on the wrench 1..6, while minus one times (the frame
  minus the offset) is zero.
\<close>

theorem frame_received_by_calibration_only:
  "steady_trials = (\<lambda>i. steady) \<and> delivered LeftArm steady = Some [1, 2, 3, 4, 5, 6]
   \<and> threadInit stub steady_trials constructed = Inr calibrated
   \<and> delivered LeftArm quiet = None
   \<and> model_wrench LeftArm (fst (run stub quiet calibrated)) = [1, 2, 3, 4, 5, 6]
   \<and> smul (- 1) (vsub [1, 2, 3, 4, 5, 6] (offset LeftArm calibrated)) = [0, 0, 0, 0, 0, 0]"
proof -
  have "steady_trials = (\<lambda>i. steady)"
    by (rule ext) (simp add: steady_trials_def)
  moreover have "delivered LeftArm steady = Some [1, 2, 3, 4, 5, 6]" "delivered LeftArm quiet = None"
    by (simp_all add: steady_def quiet_def)
  moreover have "smul (- 1) (vsub [1, 2, 3, 4, 5, 6] [1, 2, 3, 4, 5, 6]) = [0, 0, 0, 0, 0, 0]"
    by (simp add: smul_def vsub_def)
  ultimately show ?thesis
    by (simp add: calibrated_state run_model_wrench run_wrench)
qed

section \<open>The order of the encoder values\<close>

lemma copy_fold_nth:
  fixes enc :: vec
  defines "step \<equiv> (\<lambda>src off (i::nat) (qa :: vec \<times> vec).
             case qa of (q, all_q) \<Rightarrow> let q1 = q[i := enc ! src i] in (q1, all_q[off + i := q1 ! i]))"
  assumes "k \<le> length q"
  shows "length (fst (fold (step src off) [0..<k] (q, a))) = length q
   \<and> length (snd (fold (step src off) [0..<k] (q, a))) = length a
   \<and> (\<forall>i<length q. fst (fold (step src off) [0..<k] (q, a)) ! i = (if i < k then enc ! src i else q ! i))
   \<and> (\<forall>j<length a. snd (fold (step src off) [0..<k] (q, a)) ! j
          = (if off \<le> j \<and> j < off + k then enc ! src (j - off) else a ! j))"
  using assms(2)
proof (induction k)
  case 0
  show ?case by auto
next
  case (Suc k)
  obtain q' a' where f: "fold (step src off) [0..<k] (q, a) = (q', a')"
    by (cases "fold (step src off) [0..<k] (q, a)")
  from Suc f have IH: "length q' = length q" "length a' = length a"
    "\<And>i. i < length q \<Longrightarrow> q' ! i = (if i < k then enc ! src i else q ! i)"
    "\<And>j. j < length a \<Longrightarrow> a' ! j = (if off \<le> j \<and> j < off + k then enc ! src (j - off) else a ! j)"
    by simp_all
  from Suc.prems have k: "k < length q" by simp
  have s: "fold (step src off) [0..<Suc k] (q, a) = (q'[k := enc ! src k], a'[off + k := q'[k := enc ! src k] ! k])"
    by (simp add: f) (simp add: step_def Let_def)
  have q: "q'[k := enc ! src k] ! i = (if i < Suc k then enc ! src i else q ! i)" if "i < length q" for i
    using that k IH(1) IH(3)[of i] by (cases "i = k") (simp_all add: nth_list_update)
  have qk: "q'[k := enc ! src k] ! k = enc ! src k"
    using k IH(1) by simp
  have a: "a'[off + k := enc ! src k] ! j
             = (if off \<le> j \<and> j < off + Suc k then enc ! src (j - off) else a ! j)" if "j < length a" for j
  proof (cases "j = off + k")
    case True
    with that IH(2) show ?thesis by simp
  next
    case False
    with that IH(2) IH(4)[of j] show ?thesis by (auto simp add: nth_list_update)
  qed
  show ?case
    unfolding s using IH(1,2) q a by (simp add: qk)
qed

lemma copy_loop_lists:
  "fst (copy_loop src off enc q a) = map (\<lambda>i. enc ! src i) [0..<length q]"
  "off + length q \<le> length a \<Longrightarrow>
     snd (copy_loop src off enc q a) = take off a @ map (\<lambda>i. enc ! src i) [0..<length q] @ drop (off + length q) a"
proof -
  note r = copy_fold_nth[of "length q" q enc src off a, simplified, folded copy_loop_def]
  show "fst (copy_loop src off enc q a) = map (\<lambda>i. enc ! src i) [0..<length q]"
    using r by (intro nth_equalityI) simp_all
  show "snd (copy_loop src off enc q a) = take off a @ map (\<lambda>i. enc ! src i) [0..<length q] @ drop (off + length q) a"
    if "off + length q \<le> length a"
    using r that by (intro nth_equalityI) (auto simp add: nth_append)
qed

lemma take_nth_map: "n \<le> length xs \<Longrightarrow> map (\<lambda>i. xs ! i) [0..<n] = take n xs"
  by (intro nth_equalityI) simp_all

lemma getLower_positions:
  assumes "length (q_torso s) = 3" "length (q_lleg s) = 7" "length (q_rleg s) = 7"
      and "17 \<le> length (all_q_low s)"
  shows "encoders_torso (snd (getLowerEncodersSpeedAndAcceleration C inp s)) = snd (iencs_torso inp (encoders_torso s))"
    "encoders_leg_left (snd (getLowerEncodersSpeedAndAcceleration C inp s)) = snd (iencs_leg_left inp (encoders_leg_left s))"
    "encoders_leg_right (snd (getLowerEncodersSpeedAndAcceleration C inp s)) = snd (iencs_leg_right inp (encoders_leg_right s))"
    "q_torso (snd (getLowerEncodersSpeedAndAcceleration C inp s)) =
       map (\<lambda>i. snd (iencs_torso inp (encoders_torso s)) ! (2 - i)) [0..<3]"
    "q_lleg (snd (getLowerEncodersSpeedAndAcceleration C inp s)) =
       map (\<lambda>i. snd (iencs_leg_left inp (encoders_leg_left s)) ! i) [0..<7]"
    "q_rleg (snd (getLowerEncodersSpeedAndAcceleration C inp s)) =
       map (\<lambda>i. snd (iencs_leg_right inp (encoders_leg_right s)) ! i) [0..<7]"
    "all_q_low (snd (getLowerEncodersSpeedAndAcceleration C inp s)) =
       map (\<lambda>i. snd (iencs_torso inp (encoders_torso s)) ! (2 - i)) [0..<3]
       @ map (\<lambda>i. snd (iencs_leg_left inp (encoders_leg_left s)) ! i) [0..<7]
       @ map (\<lambda>i. snd (iencs_leg_right inp (encoders_leg_right s)) ! i) [0..<7]
       @ drop 17 (all_q_low s)"
  using assms
  by (simp_all add: getLowerEncodersSpeedAndAcceleration_def case_prod_beta Let_def copy_loop_lists
      del: upt_rec_numeral)

lemma getUpper_positions:
  assumes "length (q_head s) = 3" "length (q_larm s) = 7" "length (q_rarm s) = 7"
      and "17 \<le> length (all_q_up s)"
  shows "encoders_head (snd (getUpperEncodersSpeedAndAcceleration C inp s)) = snd (iencs_head inp (encoders_head s))"
    "encoders_arm_left (snd (getUpperEncodersSpeedAndAcceleration C inp s)) = snd (iencs_arm_left inp (encoders_arm_left s))"
    "encoders_arm_right (snd (getUpperEncodersSpeedAndAcceleration C inp s)) = snd (iencs_arm_right inp (encoders_arm_right s))"
    "q_head (snd (getUpperEncodersSpeedAndAcceleration C inp s)) =
       map (\<lambda>i. snd (iencs_head inp (encoders_head s)) ! i) [0..<3]"
    "q_larm (snd (getUpperEncodersSpeedAndAcceleration C inp s)) =
       map (\<lambda>i. snd (iencs_arm_left inp (encoders_arm_left s)) ! i) [0..<7]"
    "q_rarm (snd (getUpperEncodersSpeedAndAcceleration C inp s)) =
       map (\<lambda>i. snd (iencs_arm_right inp (encoders_arm_right s)) ! i) [0..<7]"
    "all_q_up (snd (getUpperEncodersSpeedAndAcceleration C inp s)) =
       map (\<lambda>i. snd (iencs_head inp (encoders_head s)) ! i) [0..<3]
       @ map (\<lambda>i. snd (iencs_arm_left inp (encoders_arm_left s)) ! i) [0..<7]
       @ map (\<lambda>i. snd (iencs_arm_right inp (encoders_arm_right s)) ! i) [0..<7]
       @ drop 17 (all_q_up s)"
  using assms
  by (simp_all add: getUpperEncodersSpeedAndAcceleration_def case_prod_beta Let_def copy_loop_lists
      del: upt_rec_numeral)

lemma reversed3: "map (\<lambda>i. e ! (2 - i)) [0..<3] = [e ! 2, e ! 1, e ! 0]"
  by (simp add: numeral_3_eq_3)

text \<open>
  Claim C10. With the vector lengths that the constructor sets (3 for the torso and the
  head, 7 for the arms and the legs, at least 17 for the concatenated vectors) and
  buffers that hold at least that many encoder values, the torso positions are the
  torso encoders in reversed order, \<^verbatim>\<open>q_torso(i) = encoders_torso(2-i)\<close>, every other group
  takes its encoders in their own order, and each concatenated vector starts with the
  three position vectors of its groups, one after the other.
\<close>

theorem torso_reversed_others_in_order:
  assumes "length (q_torso s) = 3" and "length (q_lleg s) = 7" and "length (q_rleg s) = 7"
      and "17 \<le> length (all_q_low s)"
      and "length (q_head s) = 3" and "length (q_larm s) = 7" and "length (q_rarm s) = 7"
      and "17 \<le> length (all_q_up s)"
      and "3 \<le> length (snd (iencs_torso inp (encoders_torso s)))"
      and "7 \<le> length (snd (iencs_leg_left inp (encoders_leg_left s)))"
      and "7 \<le> length (snd (iencs_leg_right inp (encoders_leg_right s)))"
      and "3 \<le> length (snd (iencs_head inp (encoders_head s)))"
      and "7 \<le> length (snd (iencs_arm_left inp (encoders_arm_left s)))"
      and "7 \<le> length (snd (iencs_arm_right inp (encoders_arm_right s)))"
      and "low = snd (getLowerEncodersSpeedAndAcceleration C inp s)"
      and "up = snd (getUpperEncodersSpeedAndAcceleration C inp s)"
  shows "q_torso low = [encoders_torso low ! 2, encoders_torso low ! 1, encoders_torso low ! 0]
       \<and> q_lleg low = take 7 (encoders_leg_left low)
       \<and> q_rleg low = take 7 (encoders_leg_right low)
       \<and> all_q_low low = q_torso low @ q_lleg low @ q_rleg low @ drop 17 (all_q_low s)
       \<and> q_head up = take 3 (encoders_head up)
       \<and> q_larm up = take 7 (encoders_arm_left up)
       \<and> q_rarm up = take 7 (encoders_arm_right up)
       \<and> all_q_up up = q_head up @ q_larm up @ q_rarm up @ drop 17 (all_q_up s)"
  unfolding assms(15,16)
    getLower_positions[OF assms(1-4)] getUpper_positions[OF assms(5-8)] reversed3
    take_nth_map[OF assms(9)] take_nth_map[OF assms(10)] take_nth_map[OF assms(11)]
    take_nth_map[OF assms(12)] take_nth_map[OF assms(13)] take_nth_map[OF assms(14)]
  by simp

text \<open>Claim C10 for torso encoders 10, 20, 30 and head encoders 1..6 on the concrete robot.\<close>

theorem torso_reversed_others_in_order_witness:
  "q_torso (snd (getLowerEncodersSpeedAndAcceleration stub posed constructed)) = [30, 20, 10]
   \<and> q_lleg (snd (getLowerEncodersSpeedAndAcceleration stub posed constructed)) = [0, 0, 0, 0, 0, 0, 0]
   \<and> q_head (snd (getUpperEncodersSpeedAndAcceleration stub posed constructed)) = [1, 2, 3]
   \<and> take 6 (all_q_low (snd (getLowerEncodersSpeedAndAcceleration stub posed constructed))) = [30, 20, 10, 0, 0, 0]"
proof -
  have enc: "encoders_torso (snd (getLowerEncodersSpeedAndAcceleration stub posed constructed)) = [10, 20, 30]"
    "encoders_leg_left (snd (getLowerEncodersSpeedAndAcceleration stub posed constructed)) = replicate 7 0"
    "encoders_head (snd (getUpperEncodersSpeedAndAcceleration stub posed constructed)) = [1, 2, 3, 4, 5, 6]"
    by (simp_all add: getLower_positions getUpper_positions constructed_sizes posed_def quiet_def still_def)
  have r7: "replicate 7 (0::real) = [0, 0, 0, 0, 0, 0, 0]"
    by (simp add: numeral_eq_Suc)
  have bufs: "3 \<le> length (snd (iencs_torso posed (encoders_torso constructed)))"
    "7 \<le> length (snd (iencs_leg_left posed (encoders_leg_left constructed)))"
    "7 \<le> length (snd (iencs_leg_right posed (encoders_leg_right constructed)))"
    "3 \<le> length (snd (iencs_head posed (encoders_head constructed)))"
    "7 \<le> length (snd (iencs_arm_left posed (encoders_arm_left constructed)))"
    "7 \<le> length (snd (iencs_arm_right posed (encoders_arm_right constructed)))"
    by (simp_all add: constructed_sizes posed_def quiet_def still_def)
  have sizes: "17 \<le> length (all_q_low constructed)" "17 \<le> length (all_q_up constructed)"
    by (simp_all add: constructed_sizes)
  show ?thesis
    using torso_reversed_others_in_order[OF constructed_sizes(1-3) sizes(1) constructed_sizes(5-7)
        sizes(2) bufs refl refl, of stub]
    by (simp add: enc r7 constructed_sizes)
qed

end
